theory Spec2Isabelle
  imports Complex_Main "HOL-Library.AList" "HOL-Library.Sublist"
begin

section \<open>Numbers and dictionaries of the Python source\<close>

text \<open>
  Marks, percentages and scores are Python floats in the source.  They are modelled as
  real numbers: the arithmetic is exact, and overflow, NaN and binary rounding error are
  outside the model.  \<open>np.mean\<close> and \<open>np.var\<close> are the arithmetic mean and the
  population variance.  The source calls \<open>np.mean\<close> on an empty list nowhere: each
  call is guarded or has three elements.
\<close>

definition np_mean :: "real list \<Rightarrow> real" where
  "np_mean xs = sum_list xs / real (length xs)"

definition np_var :: "real list \<Rightarrow> real" where
  "np_var xs = np_mean (map (\<lambda>x. (x - np_mean xs)\<^sup>2) xs)"

text \<open>
  Python's \<open>round(x, n)\<close> rounds to \<open>n\<close> decimals, a tie going to the even digit.
\<close>

definition round_half_even :: "real \<Rightarrow> int" where
  "round_half_even x =
     (let f = \<lfloor>x\<rfloor>; d = x - of_int f
      in if d < 1 / 2 then f
         else if 1 / 2 < d then f + 1
         else if even f then f else f + 1)"

definition py_round :: "real \<Rightarrow> nat \<Rightarrow> real" where
  "py_round x n = of_int (round_half_even (x * 10 ^ n)) / 10 ^ n"

text \<open>\<open>d.get(k, default)\<close> on a dictionary.\<close>

definition dict_get :: "('k \<rightharpoonup> 'v) \<Rightarrow> 'k \<Rightarrow> 'v \<Rightarrow> 'v" where
  "dict_get d k dflt = (case d k of None \<Rightarrow> dflt | Some v \<Rightarrow> v)"

text \<open>The three internal assessments, in the order the source lists them.\<close>

definition internal_exams :: "string list" where
  "internal_exams = [''series_test_1'', ''series_test_2'', ''lab_internal'']"


section \<open>The prediction service: state and student records\<close>

text \<open>
  A trained regressor is used through \<open>model.predict([features])[0]\<close> only: it is a
  function from one feature row to the raw prediction, or to the message of the
  exception it raises.
\<close>

type_synonym model = "real list \<Rightarrow> string + real"

text \<open>
  The fields of \<open>PredictionService\<close>.  \<open>models\<close> is a Python dictionary, whose keys
  keep their insertion order: an association list with distinct keys.
\<close>

record prediction_service =
  model_path :: string
  models :: "(string \<times> model) list"
  model_version :: string
  feature_columns :: "string list"

definition default_feature_columns :: "string list" where
  "default_feature_columns =
     [''series_test_1_percentage'', ''series_test_2_percentage'',
      ''lab_internal_percentage'', ''average_internal_percentage'',
      ''subject_type_encoded'', ''semester'', ''attendance_percentage'']"

text \<open>
  The student record handed to the predictor: a dictionary whose keys may all be
  absent.  An absent \<open>marks\<close> key reads as the empty dictionary
  (\<open>student_data.get('marks', {})\<close>), so \<open>marks\<close> is a map that may be empty.
\<close>

record student_data =
  student_id :: "int option"
  subject_id :: "int option"
  subject_type :: "string option"
  semester :: "int option"
  attendance_percentage :: "real option"
  marks :: "string \<rightharpoonup> real"


section \<open>Feature builder\<close>

text \<open>\<open>PredictionService._prepare_prediction_features\<close>.\<close>

definition prepare_prediction_features :: "prediction_service \<Rightarrow> student_data \<Rightarrow> real list" where
  "prepare_prediction_features self sd =
     (let mk = marks sd;
          series_1 = dict_get mk ''series_test_1'' 0;
          series_2 = dict_get mk ''series_test_2'' 0;
          lab_internal = dict_get mk ''lab_internal'' 0;
          available_marks = filter (\<lambda>m. 0 < m) [series_1, series_2, lab_internal];
          avg_internal = (if available_marks \<noteq> [] then np_mean available_marks else 0);
          series_1 = (if series_1 = 0 \<and> 0 < avg_internal then avg_internal else series_1);
          series_2 = (if series_2 = 0 \<and> 0 < avg_internal then avg_internal else series_2);
          lab_internal =
            (if lab_internal = 0 \<and> 0 < avg_internal then avg_internal else lab_internal);
          avg_internal = np_mean [series_1, series_2, lab_internal];
          features =
            [series_1, series_2, lab_internal, avg_internal,
             (if subject_type sd = Some ''lab'' then 1 else 0),
             (case semester sd of None \<Rightarrow> 1 | Some n \<Rightarrow> of_int n)]
      in if ''attendance_percentage'' \<in> set (feature_columns self)
         then features @ [case attendance_percentage sd of None \<Rightarrow> 80 | Some a \<Rightarrow> a]
         else features)"


section \<open>Confidence score\<close>

text \<open>
  \<open>PredictionService._calculate_confidence\<close>.  The feature vector is a parameter of
  the source function that its body never reads.
\<close>

definition calculate_confidence :: "student_data \<Rightarrow> real list \<Rightarrow> real" where
  "calculate_confidence sd features =
     (let mk = marks sd;
          confidence = 0.5;
          available_internals =
            length (filter (\<lambda>exam. 0 < dict_get mk exam 0) internal_exams);
          confidence = confidence + (real available_internals / 3) * 0.3;
          internal_marks =
            map (\<lambda>exam. dict_get mk exam 0)
              (filter (\<lambda>exam. 0 < dict_get mk exam 0) internal_exams);
          confidence =
            (if 2 \<le> length internal_marks
             then confidence + max 0 ((100 - np_var internal_marks) / 100) * 0.2
             else confidence)
      in max 0.0 (min 1.0 confidence))"


section \<open>Model resolution and prediction\<close>

text \<open>\<open>str(n)\<close> of an integer, as the f-string \<open>f"subject_{subject_id}"\<close> formats it.\<close>

fun str_nat :: "nat \<Rightarrow> string" where
  "str_nat n =
     (if n < 10 then [''0123456789'' ! n]
      else str_nat (n div 10) @ [''0123456789'' ! (n mod 10)])"

declare str_nat.simps [simp del]

definition str_int :: "int \<Rightarrow> string" where
  "str_int i = (if i < 0 then CHR ''-'' # str_nat (nat (- i)) else str_nat (nat i))"

text \<open>\<open>os.path.join\<close> of two components on a POSIX system.\<close>

definition os_path_join :: "string \<Rightarrow> string \<Rightarrow> string" where
  "os_path_join a b =
     (if b \<noteq> [] \<and> hd b = CHR ''/'' then b
      else if a = [] \<or> last a = CHR ''/'' then a @ b
      else a @ ''/'' @ b)"

definition startswith :: "string \<Rightarrow> string \<Rightarrow> bool" where
  "startswith s p = prefix p s"

text \<open>
  The model directory: a path that exists maps to what \<open>joblib.load\<close> does with it,
  the model it returns or the message of the exception it raises.
\<close>

type_synonym model_store = "string \<rightharpoonup> (string + model)"

text \<open>
  \<open>dict(pairs)\<close>: a later pair with the same key overwrites the value and keeps the
  first position.
\<close>

definition dict_of_pairs :: "('k \<times> 'v) list \<Rightarrow> ('k \<times> 'v) list" where
  "dict_of_pairs ps = foldl (\<lambda>d (k, v). AList.update k v d) [] ps"

text \<open>
  The dictionary \<open>predict_university_marks\<close> returns: the success result, or
  \<open>{'success': False, 'error': str(e)}\<close>.  The time stamp \<open>predicted_at\<close> is left
  out.
\<close>

datatype prediction_result =
  success: Prediction
    (predicted_marks: real)
    (confidence_score: real)
    (input_features: "(string \<times> real) list")
    (result_model_version: string)
    (model_used: string)
  | PredictionFailed (error: string)

text \<open>
  Line 257: \<open>f"subject_{subject_id}" if subject_id else "general"\<close>.  The test is
  Python truthiness, so the subject id 0 counts as no subject id.
\<close>

definition subject_key_of :: "int option \<Rightarrow> string" where
  "subject_key_of sid =
     (case sid of
        None \<Rightarrow> ''general''
      | Some n \<Rightarrow> if n \<noteq> 0 then ''subject_'' @ str_int n else ''general'')"

text \<open>
  Lines 243 to 271 of \<open>predict_university_marks\<close>: the choice of the model.  The
  result is the message of the exception raised, or the key, the model and the service
  with the model cached when it came from the model directory.
\<close>

definition resolve_model ::
  "prediction_service \<Rightarrow> model_store \<Rightarrow> int option
     \<Rightarrow> string + (string \<times> model \<times> prediction_service)" where
  "resolve_model self disk sid =
     (case map_of (models self) ''production_best'' of
        Some m \<Rightarrow> Inr (''production_best'', m, self)
      | None \<Rightarrow>
          (case filter (\<lambda>(k, m). startswith k ''production_'') (models self) of
             (k, m) # _ \<Rightarrow> Inr (k, m, self)
           | [] \<Rightarrow>
               (let subject_key = subject_key_of sid
                in case map_of (models self) subject_key of
                     Some m \<Rightarrow> Inr (subject_key, m, self)
                   | None \<Rightarrow>
                       (let model_filename =
                              subject_key @ ''_model_'' @ model_version self @ ''.joblib'';
                            model_filepath = os_path_join (model_path self) model_filename
                        in case disk model_filepath of
                             Some (Inr m) \<Rightarrow>
                               Inr (subject_key, m,
                                    self\<lparr>models := AList.update subject_key m (models self)\<rparr>)
                           | Some (Inl e) \<Rightarrow> Inl e
                           | None \<Rightarrow>
                               Inl ''No trained model found. Please train a model first.''))))"

text \<open>
  \<open>PredictionService.predict_university_marks\<close>: every exception of the body is
  caught and returned as a failure dictionary, so the function always returns.  It
  returns the service as well, whose \<open>models\<close> it may have extended.
\<close>

definition predict_university_marks ::
  "prediction_service \<Rightarrow> model_store \<Rightarrow> student_data \<Rightarrow> int option
     \<Rightarrow> prediction_result \<times> prediction_service" where
  "predict_university_marks self disk sd sid =
     (case resolve_model self disk sid of
        Inl e \<Rightarrow> (PredictionFailed e, self)
      | Inr (model_key, model, self') \<Rightarrow>
          (let features = prepare_prediction_features self' sd
           in case model features of
                Inl e \<Rightarrow> (PredictionFailed e, self')
              | Inr prediction \<Rightarrow>
                  (let confidence = calculate_confidence sd features;
                       prediction = max 0 (min 100 prediction)
                   in (Prediction (py_round prediction 2) (py_round confidence 2)
                         (dict_of_pairs (zip (feature_columns self') features))
                         (model_version self') model_key,
                       self'))))"

text \<open>
  \<open>PredictionService.batch_predict\<close>.  Each result dictionary gets the keys
  \<open>student_id\<close> and \<open>subject_id\<close> of its student record.  The handler of the loop
  body covers an exception of \<open>predict_university_marks\<close>, which raises none, so the
  loop body is its \<open>try\<close> branch.
\<close>

record batch_item =
  item_result :: prediction_result
  item_student_id :: "int option"
  item_subject_id :: "int option"

fun batch_predict ::
  "prediction_service \<Rightarrow> model_store \<Rightarrow> student_data list \<Rightarrow> int option
     \<Rightarrow> batch_item list \<times> prediction_service" where
  "batch_predict self disk [] sid = ([], self)"
| "batch_predict self disk (sd # students_data) sid =
     (let (prediction, self') = predict_university_marks self disk sd sid;
          item = \<lparr>item_result = prediction, item_student_id = student_id sd,
                  item_subject_id = subject_id sd\<rparr>;
          (results, self'') = batch_predict self' disk students_data sid
      in (item # results, self''))"


section \<open>Training table\<close>

text \<open>
  Exceptions of the training path, by class.  \<open>LibraryError\<close> stands for whatever the
  learning and persistence libraries raise.
\<close>

datatype exn =
    ValueError string
  | KeyError "string list"
  | ZeroDivisionError
  | AttributeError string
  | TypeError string
  | LibraryError string

text \<open>Sequencing of steps that may raise: the first exception ends the run.\<close>

definition then_do :: "exn + 'a \<Rightarrow> ('a \<Rightarrow> exn + 'b) \<Rightarrow> exn + 'b" where
  "then_do r f = (case r of Inl e \<Rightarrow> Inl e | Inr v \<Rightarrow> f v)"

text \<open>
  One row of the marks query.  The keys read with \<open>mark[...]\<close> are fields; the two
  read with \<open>mark.get\<close> may be absent.
\<close>

record mark_record =
  mark_student_id :: int
  mark_subject_id :: int
  exam_type :: string
  marks_obtained :: real
  max_marks :: real
  mark_subject_type :: "string option"
  mark_semester :: "int option"

text \<open>An entry of \<open>student_subject_marks\<close>.\<close>

record mark_group =
  group_student_id :: int
  group_subject_id :: int
  group_subject_type :: string
  group_semester :: int
  exam_marks :: "string \<rightharpoonup> real"

text \<open>
  The first loop of \<open>prepare_training_data\<close>: the dictionary keyed by
  \<open>(student_id, subject_id)\<close>, in insertion order.  A division by a zero
  \<open>max_marks\<close> raises.
\<close>

fun group_marks ::
  "((int \<times> int) \<times> mark_group) list \<Rightarrow> mark_record list
     \<Rightarrow> exn + ((int \<times> int) \<times> mark_group) list" where
  "group_marks student_subject_marks [] = Inr student_subject_marks"
| "group_marks student_subject_marks (mark # marks_data) =
     (let key = (mark_student_id mark, mark_subject_id mark);
          student_subject_marks =
            (if map_of student_subject_marks key = None
             then student_subject_marks @
                  [(key, \<lparr>group_student_id = mark_student_id mark,
                           group_subject_id = mark_subject_id mark,
                           group_subject_type =
                             (case mark_subject_type mark of None \<Rightarrow> ''theory'' | Some t \<Rightarrow> t),
                           group_semester =
                             (case mark_semester mark of None \<Rightarrow> 1 | Some n \<Rightarrow> n),
                           exam_marks = Map.empty\<rparr>)]
             else student_subject_marks)
      in if max_marks mark = 0 then Inl ZeroDivisionError
         else
           (let percentage = (marks_obtained mark / max_marks mark) * 100
            in group_marks
                 (AList.map_entry key
                    (\<lambda>g. g\<lparr>exam_marks := (exam_marks g)(exam_type mark \<mapsto> percentage)\<rparr>)
                    student_subject_marks)
                 marks_data))"

text \<open>A dictionary appended to \<open>training_records\<close>.\<close>

record training_record =
  record_student_id :: int
  record_subject_id :: int
  series_test_1_percentage :: real
  series_test_2_percentage :: real
  lab_internal_percentage :: real
  average_internal_percentage :: real
  subject_type_encoded :: int
  record_semester :: int
  university_percentage :: real

text \<open>
  The body of the second loop of \<open>prepare_training_data\<close> for one group: the record
  it appends, if any.
\<close>

definition training_record_of :: "mark_group \<Rightarrow> training_record option" where
  "training_record_of data =
     (let mk = exam_marks data
      in case mk ''university'' of
           None \<Rightarrow> None
         | Some university \<Rightarrow>
             (let internal_count = length (filter (\<lambda>exam. mk exam \<noteq> None) internal_exams)
              in if 2 \<le> internal_count then
                   (let internal_marks = map (\<lambda>exam. dict_get mk exam 0) internal_exams;
                        available_internals = filter (\<lambda>m. 0 < m) internal_marks;
                        avg_internal =
                          (if available_internals \<noteq> [] then np_mean available_internals
                           else 0);
                        series_1 = dict_get mk ''series_test_1'' avg_internal;
                        series_2 = dict_get mk ''series_test_2'' avg_internal;
                        lab_internal = dict_get mk ''lab_internal'' avg_internal
                    in Some \<lparr>record_student_id = group_student_id data,
                             record_subject_id = group_subject_id data,
                             series_test_1_percentage = series_1,
                             series_test_2_percentage = series_2,
                             lab_internal_percentage = lab_internal,
                             average_internal_percentage =
                               np_mean [series_1, series_2, lab_internal],
                             subject_type_encoded =
                               (if group_subject_type data = ''lab'' then 1 else 0),
                             record_semester = group_semester data,
                             university_percentage = university\<rparr>)
                 else None))"

text \<open>The list \<open>training_records\<close> after the second loop.\<close>

definition training_records :: "mark_record list \<Rightarrow> exn + training_record list" where
  "training_records marks_data =
     then_do (group_marks [] marks_data)
       (\<lambda>student_subject_marks.
          Inr (List.map_filter (\<lambda>(key, data). training_record_of data) student_subject_marks))"

text \<open>
  The columns of \<open>pd.DataFrame(training_records)\<close> are the keys of the record
  dictionaries; \<open>column_value\<close> reads one cell.
\<close>

definition record_columns :: "string list" where
  "record_columns =
     [''student_id'', ''subject_id'', ''series_test_1_percentage'',
      ''series_test_2_percentage'', ''lab_internal_percentage'',
      ''average_internal_percentage'', ''subject_type_encoded'', ''semester'',
      ''university_percentage'']"

definition column_value :: "training_record \<Rightarrow> string \<Rightarrow> real" where
  "column_value r c =
     (if c = ''student_id'' then of_int (record_student_id r)
      else if c = ''subject_id'' then of_int (record_subject_id r)
      else if c = ''series_test_1_percentage'' then series_test_1_percentage r
      else if c = ''series_test_2_percentage'' then series_test_2_percentage r
      else if c = ''lab_internal_percentage'' then lab_internal_percentage r
      else if c = ''average_internal_percentage'' then average_internal_percentage r
      else if c = ''subject_type_encoded'' then of_int (subject_type_encoded r)
      else if c = ''semester'' then of_int (record_semester r)
      else university_percentage r)"

text \<open>
  \<open>PredictionService.prepare_training_data\<close>.  \<open>df[self.feature_columns]\<close> raises
  a \<open>KeyError\<close> naming the columns the frame does not have.
\<close>

definition prepare_training_data ::
  "prediction_service \<Rightarrow> mark_record list \<Rightarrow> exn + (real list list \<times> real list)" where
  "prepare_training_data self marks_data =
     then_do (training_records marks_data)
       (\<lambda>records.
          if records = [] then
            Inl (ValueError
              ''No valid training data found. Need students with university marks and internal assessments.'')
          else
            (let missing = filter (\<lambda>c. c \<notin> set record_columns) (feature_columns self)
             in if missing \<noteq> [] then Inl (KeyError missing)
                else Inr (map (\<lambda>r. map (column_value r) (feature_columns self)) records,
                          map university_percentage records)))"


section \<open>Trainer\<close>

text \<open>
  What the trainer calls in scikit-learn, xgboost and joblib, as parameters: the split,
  the fit of a regressor family by name, the prediction on a table, the three error
  measures, the array arithmetic of \<open>_calculate_accuracy_within_threshold\<close>, the
  attribute \<open>feature_importances_\<close> when the model has it, and \<open>joblib.dump\<close>.
  Each may raise.  \<open>'x\<close> is what is passed as the table and \<open>'y\<close> as the target.
\<close>

record ('x, 'y, 'm) learner =
  train_test_split :: "'x \<Rightarrow> 'y \<Rightarrow> exn + ('x \<times> 'x \<times> 'y \<times> 'y)"
  fit :: "string \<Rightarrow> 'x \<Rightarrow> 'y \<Rightarrow> exn + 'm"
  predict :: "'m \<Rightarrow> 'x \<Rightarrow> exn + 'y"
  mean_absolute_error :: "'y \<Rightarrow> 'y \<Rightarrow> exn + real"
  mean_squared_error :: "'y \<Rightarrow> 'y \<Rightarrow> exn + real"
  r2_score :: "'y \<Rightarrow> 'y \<Rightarrow> exn + real"
  accuracy_within_threshold :: "'y \<Rightarrow> 'y \<Rightarrow> real \<Rightarrow> exn + real"
  feature_importances :: "'m \<Rightarrow> real list option"
  dump :: "'m \<Rightarrow> string \<Rightarrow> exn + unit"

record metrics =
  mae :: real
  mse :: real
  rmse :: real
  r2 :: real

record training_results =
  trained_model_version :: string
  best_model :: string
  training_samples :: nat
  test_samples :: nat
  model_performance :: metrics
  all_models_performance :: "(string \<times> metrics) list"
  feature_importance :: "(string \<times> real) list"
  trained_model_path :: string

record table_metrics =
  table_mse :: real
  table_mae :: real
  table_r2_score :: real
  accuracy_within_10_percent :: real

text \<open>
  What a call of \<open>train_model\<close> can return: the success dictionary or the failure
  dictionary of the definition at line 121, or the pair of the definition at line 560.
\<close>

datatype 'm train_return =
    TrainingResults training_results
  | TrainingFailed exn
  | ModelAndMetrics 'm table_metrics

text \<open>
  The loop over \<open>models_to_try\<close> at lines 168 to 189.  \<open>best\<close> is \<open>None\<close> while
  \<open>best_score\<close> is still infinite.
\<close>

fun try_models ::
  "(real list list, real list, model) learner
     \<Rightarrow> real list list \<Rightarrow> real list \<Rightarrow> real list list \<Rightarrow> real list \<Rightarrow> string list
     \<Rightarrow> (real \<times> model \<times> string) option \<times> (string \<times> metrics) list
     \<Rightarrow> exn + ((real \<times> model \<times> string) option \<times> (string \<times> metrics) list)" where
  "try_models lib X_train y_train X_test y_test [] acc = Inr acc"
| "try_models lib X_train y_train X_test y_test (model_name # rest) (best, model_results) =
     then_do (fit lib model_name X_train y_train) (\<lambda>model.
     then_do (predict lib model X_test) (\<lambda>y_pred.
     then_do (mean_absolute_error lib y_test y_pred) (\<lambda>mae_v.
     then_do (mean_squared_error lib y_test y_pred) (\<lambda>mse_v.
     then_do (r2_score lib y_test y_pred) (\<lambda>r2_v.
       try_models lib X_train y_train X_test y_test rest
         ((case best of
             None \<Rightarrow> Some (mae_v, model, model_name)
           | Some (best_score, _, _) \<Rightarrow>
               if mae_v < best_score then Some (mae_v, model, model_name) else best),
          AList.update model_name
            \<lparr>mae = mae_v, mse = mse_v, rmse = sqrt mse_v, r2 = r2_v\<rparr> model_results))))))"

definition models_to_try :: "string list" where
  "models_to_try = [''random_forest'', ''xgboost'']"

text \<open>
  The definition of \<open>train_model\<close> at line 121, taking the marks corpus and the
  subject id.  It returns its dictionary, the service and the model directory.  The
  time stamp \<open>trained_at\<close> is left out.  The assignment to \<open>self.models\<close> comes
  before \<open>joblib.dump\<close>, so it stays when the dump raises.
\<close>

definition train_model_line_121 ::
  "(real list list, real list, model) learner \<Rightarrow> prediction_service \<Rightarrow> model_store
     \<Rightarrow> mark_record list \<Rightarrow> int option
     \<Rightarrow> 'm train_return \<times> prediction_service \<times> model_store" where
  "train_model_line_121 lib self disk marks_data sid =
     (case
        then_do (prepare_training_data self marks_data) (\<lambda>(X, y).
        if length X < 10 then
          Inl (ValueError (''Insufficient training data: '' @ str_nat (length X) @
                           '' records. Need at least 10 records.''))
        else
          then_do (train_test_split lib X y) (\<lambda>(X_train, X_test, y_train, y_test).
          then_do (try_models lib X_train y_train X_test y_test models_to_try (None, []))
            (\<lambda>(best, model_results). Inr (X_train, X_test, best, model_results))))
      of
        Inl e \<Rightarrow> (TrainingFailed e, self, disk)
      | Inr (X_train, X_test, None, model_results) \<Rightarrow>
          (TrainingFailed (KeyError [''None'']), self, disk)
      | Inr (X_train, X_test, Some (best_score, best, best_model_name), model_results) \<Rightarrow>
          (let model_key = subject_key_of sid;
               self = self\<lparr>models := AList.update model_key best (models self)\<rparr>;
               model_filename = model_key @ ''_model_'' @ model_version self @ ''.joblib'';
               model_filepath = os_path_join (model_path self) model_filename
           in case dump lib best model_filepath of
                Inl e \<Rightarrow> (TrainingFailed e, self, disk)
              | Inr _ \<Rightarrow>
                  (case map_of model_results best_model_name of
                     None \<Rightarrow> (TrainingFailed (KeyError [best_model_name]), self,
                               disk(model_filepath \<mapsto> Inr best))
                   | Some performance \<Rightarrow>
                       (TrainingResults
                          \<lparr>trained_model_version = model_version self,
                           best_model = best_model_name,
                           training_samples = length X_train,
                           test_samples = length X_test,
                           model_performance = performance,
                           all_models_performance = model_results,
                           feature_importance =
                             (case feature_importances lib best of
                                None \<Rightarrow> []
                              | Some imp \<Rightarrow> dict_of_pairs (zip (feature_columns self) imp)),
                           trained_model_path = model_filepath\<rparr>,
                        self, disk(model_filepath \<mapsto> Inr best)))))"

text \<open>
  The definition of \<open>train_model\<close> at line 560, taking a feature table and a target.
  It has no handler: an exception of the libraries leaves the call.
\<close>

definition train_model_line_560 ::
  "('x, 'y, 'm) learner \<Rightarrow> 'x \<Rightarrow> 'y \<Rightarrow> exn + ('m \<times> table_metrics)" where
  "train_model_line_560 lib X y =
     then_do (train_test_split lib X y) (\<lambda>(X_train, X_test, y_train, y_test).
     then_do (fit lib ''random_forest_default'' X_train y_train) (\<lambda>model.
     then_do (predict lib model X_test) (\<lambda>y_pred.
     then_do (mean_squared_error lib y_test y_pred) (\<lambda>mse_v.
     then_do (mean_absolute_error lib y_test y_pred) (\<lambda>mae_v.
     then_do (r2_score lib y_test y_pred) (\<lambda>r2_v.
     then_do (accuracy_within_threshold lib y_test y_pred 10) (\<lambda>acc.
       Inr (model, \<lparr>table_mse = mse_v, table_mae = mae_v, table_r2_score = r2_v,
                    accuracy_within_10_percent = acc\<rparr>))))))))"

text \<open>
  The body of \<open>class PredictionService\<close> holds two statements \<open>def train_model\<close>,
  at line 121 and at line 560.  A class body runs top to bottom and each \<open>def\<close>
  assigns the name, so the attribute \<open>train_model\<close> of the class is the definition
  the last statement made.
\<close>

datatype train_model_def = Line_121 | Line_560

definition train_model_defs :: "train_model_def list" where
  "train_model_defs = [Line_121, Line_560]"

definition bound_train_model :: train_model_def where
  "bound_train_model = last train_model_defs"

text \<open>
  The call \<open>prediction_service.train_model(marks_data, subject_id)\<close>, as the route
  \<open>/train\<close> and the training script make it: the bound definition applied to the
  corpus and the subject id.  \<open>Inl\<close> is an exception that leaves the call.
\<close>

definition train_model ::
  "(real list list, real list, model) learner
     \<Rightarrow> (mark_record list, int option, 'm) learner
     \<Rightarrow> prediction_service \<Rightarrow> model_store \<Rightarrow> mark_record list \<Rightarrow> int option
     \<Rightarrow> (exn + 'm train_return) \<times> prediction_service \<times> model_store" where
  "train_model table_lib raw_lib self disk marks_data sid =
     (case bound_train_model of
        Line_121 \<Rightarrow>
          (let (results, self', disk') = train_model_line_121 table_lib self disk marks_data sid
           in (Inr results, self', disk'))
      | Line_560 \<Rightarrow>
          (case train_model_line_560 raw_lib marks_data sid of
             Inl e \<Rightarrow> (Inl e, self, disk)
           | Inr (model, table_metrics) \<Rightarrow>
               (Inr (ModelAndMetrics model table_metrics), self, disk)))"

text \<open>
  The route \<open>POST /train\<close> of \<open>app.py\<close>, after the check that both services exist:
  the HTTP status and the JSON body.  \<open>training_query\<close> is the outcome of
  \<open>database_service.get_training_data\<close>.  \<open>jsonify\<close> of the pair of a model and its
  metrics raises a \<open>TypeError\<close>, which the handler of the route turns into status 500.
\<close>

datatype train_body =
    ResultsBody training_results
  | ErrorMessage string
  | ErrorOf exn

definition train_route ::
  "(real list list, real list, model) learner
     \<Rightarrow> (mark_record list, int option, 'm) learner
     \<Rightarrow> prediction_service \<Rightarrow> model_store \<Rightarrow> exn + mark_record list \<Rightarrow> int option
     \<Rightarrow> (nat \<times> train_body) \<times> prediction_service \<times> model_store" where
  "train_route table_lib raw_lib self disk training_query sid =
     (case training_query of
        Inl e \<Rightarrow> ((500, ErrorOf e), self, disk)
      | Inr training_data \<Rightarrow>
          if training_data = [] then ((400, ErrorMessage ''No training data available''), self, disk)
          else
            (case train_model table_lib raw_lib self disk training_data sid of
               (Inl e, self', disk') \<Rightarrow> ((500, ErrorOf e), self', disk')
             | (Inr (TrainingResults results), self', disk') \<Rightarrow>
                 ((200, ResultsBody results), self', disk')
             | (Inr (TrainingFailed e), self', disk') \<Rightarrow> ((400, ErrorOf e), self', disk')
             | (Inr (ModelAndMetrics model table_metrics), self', disk') \<Rightarrow>
                 ((500, ErrorOf (TypeError ''Object is not JSON serializable'')), self', disk')))"


section \<open>Fallback prediction\<close>

text \<open>
  The values a keyword argument of \<open>get_fallback_prediction\<close> can hold: \<open>None\<close>, a
  number, a string, or a dictionary with string keys.
\<close>

datatype pyval = PNone | PNum real | PStr string | PDict "(string \<times> pyval) list"

text \<open>Truthiness, as \<open>if student_data:\<close> and \<open>not student_data\<close> test it.\<close>

fun truthy :: "pyval \<Rightarrow> bool" where
  "truthy PNone = False"
| "truthy (PNum x) = (x \<noteq> 0)"
| "truthy (PStr s) = (s \<noteq> [])"
| "truthy (PDict d) = (d \<noteq> [])"

text \<open>\<open>v.get(key, 0)\<close>: only a dictionary has the method.\<close>

fun py_get :: "pyval \<Rightarrow> string \<Rightarrow> exn + pyval" where
  "py_get (PDict d) key = Inr (case map_of d key of None \<Rightarrow> PNum 0 | Some v \<Rightarrow> v)"
| "py_get v key = Inl (AttributeError ''object has no attribute get'')"

text \<open>\<open>mark > 0\<close>: only a number compares with an integer.\<close>

fun greater_than_zero :: "pyval \<Rightarrow> exn + bool" where
  "greater_than_zero (PNum x) = Inr (0 < x)"
| "greater_than_zero v = Inl (TypeError ''> not supported'')"

text \<open>
  The comprehension \<open>[mark for mark in [...] if mark > 0]\<close>, left to right.  Every
  element it keeps is a number.
\<close>

fun available_marks_of :: "pyval list \<Rightarrow> exn + real list" where
  "available_marks_of [] = Inr []"
| "available_marks_of (PNum x # rest) =
     then_do (available_marks_of rest) (\<lambda>xs. Inr (if 0 < x then x # xs else xs))"
| "available_marks_of (v # rest) = Inl (TypeError ''> not supported'')"

record fallback_result =
  fallback_predicted_marks :: real
  fallback_confidence_score :: real
  prediction_method :: string
  warning :: string
  fallback_reason :: "string option"
  data_quality :: "string option"
  fallback_error :: "string option"

text \<open>
  \<open>get_fallback_prediction(*args, **kwargs)\<close> of \<open>utils/error_handler.py\<close>.  The
  positional arguments are not read.  \<open>kwargs.get('student_data', {})\<close> is the empty
  dictionary when the keyword is absent.
\<close>

definition get_fallback_prediction :: "(string \<rightharpoonup> pyval) \<Rightarrow> fallback_result" where
  "get_fallback_prediction kwargs =
     (let student_data = (case kwargs ''student_data'' of None \<Rightarrow> PDict [] | Some v \<Rightarrow> v)
      in case
           (if truthy student_data then
              then_do (py_get student_data ''series_test_1_marks'') (\<lambda>series_test_1.
              then_do (py_get student_data ''series_test_2_marks'') (\<lambda>series_test_2.
              then_do (py_get student_data ''lab_internal_marks'') (\<lambda>lab_internal.
              then_do (available_marks_of [series_test_1, series_test_2, lab_internal])
                (\<lambda>available_marks.
                   if available_marks \<noteq> [] then
                     (let avg_percentage =
                            sum_list available_marks / real (length available_marks) / 50 * 100
                      in Inr (min (max avg_percentage 35) 85, 0.5))
                   else Inr (65.0, 0.3)))))
            else Inr (65.0, 0.3))
         of
           Inr (fallback_marks, confidence) \<Rightarrow>
             \<lparr>fallback_predicted_marks = py_round fallback_marks 1,
              fallback_confidence_score = confidence,
              prediction_method = ''fallback'',
              warning = ''This is a fallback prediction due to model unavailability'',
              fallback_reason = Some ''Primary prediction model failed'',
              data_quality = Some (if \<not> truthy student_data then ''limited'' else ''partial''),
              fallback_error = None\<rparr>
         | Inl e \<Rightarrow>
             \<lparr>fallback_predicted_marks = 60.0,
              fallback_confidence_score = 0.2,
              prediction_method = ''emergency_fallback'',
              warning = ''Emergency fallback prediction - please try again later'',
              fallback_reason = None,
              data_quality = None,
              fallback_error = Some ''Both primary and fallback predictions failed''\<rparr>)"

text \<open>
  The decorator \<open>handle_prediction_errors\<close>: the classes of exception it tells
  apart, and the wrapper.  A \<open>PredictionError\<close> or \<open>ModelError\<close> is raised again;
  any other exception is replaced by the fallback prediction, which is never \<open>None\<close>.
\<close>

datatype raised = PredictionError string | ModelError string | OtherException string

definition handle_prediction_errors ::
  "((string \<rightharpoonup> pyval) \<Rightarrow> raised + 'a) \<Rightarrow> (string \<rightharpoonup> pyval) \<Rightarrow> raised + ('a + fallback_result)" where
  "handle_prediction_errors func kwargs =
     (case func kwargs of
        Inr v \<Rightarrow> Inr (Inl v)
      | Inl (PredictionError msg) \<Rightarrow> Inl (PredictionError msg)
      | Inl (ModelError msg) \<Rightarrow> Inl (ModelError msg)
      | Inl (OtherException msg) \<Rightarrow> Inr (Inr (get_fallback_prediction kwargs)))"


section \<open>Prediction persistence\<close>

text \<open>
  A row of the table \<open>ml_predictions\<close> with the columns the statements of
  \<open>DatabaseService\<close> name, and the database: the table, the next value of the id
  sequence, and the table \<open>faculty_subjects\<close> as triples of faculty, subject and
  academic year.  Connection failures and transactions are outside the model.
\<close>

record prediction_row =
  row_id :: int
  row_student_id :: int
  row_subject_id :: int
  row_predicted_marks :: real
  row_confidence_score :: real
  row_input_features :: "(string \<times> real) list"
  row_model_version :: string
  is_visible_to_student :: bool
  created_at :: nat

record database =
  ml_predictions :: "prediction_row list"
  next_id :: int
  faculty_subjects :: "(int \<times> int \<times> int) list"

text \<open>
  \<open>DatabaseService.save_prediction\<close>; \<open>now\<close> is \<open>CURRENT_TIMESTAMP\<close>.  The
  \<open>SELECT\<close> finds the rows of the student and subject; when there are any, the
  \<open>UPDATE\<close> sets five columns of each of them and the id of the first is returned;
  otherwise the \<open>INSERT\<close> adds a row and its new id is returned.
\<close>

definition save_prediction ::
  "database \<Rightarrow> nat \<Rightarrow> int \<Rightarrow> int \<Rightarrow> real \<Rightarrow> real \<Rightarrow> (string \<times> real) list \<Rightarrow> string
     \<Rightarrow> int \<times> database" where
  "save_prediction db now student subject predicted confidence features version =
     (let existing =
            filter (\<lambda>r. row_student_id r = student \<and> row_subject_id r = subject)
              (ml_predictions db)
      in case existing of
           first_row # _ \<Rightarrow>
             (row_id first_row,
              db\<lparr>ml_predictions :=
                   map (\<lambda>r. if row_student_id r = student \<and> row_subject_id r = subject
                             then r\<lparr>row_predicted_marks := predicted,
                                    row_confidence_score := confidence,
                                    row_input_features := features,
                                    row_model_version := version,
                                    created_at := now\<rparr>
                             else r)
                     (ml_predictions db)\<rparr>)
         | [] \<Rightarrow>
             (next_id db,
              db\<lparr>ml_predictions :=
                   ml_predictions db @
                   [\<lparr>row_id = next_id db, row_student_id = student, row_subject_id = subject,
                     row_predicted_marks = predicted, row_confidence_score = confidence,
                     row_input_features = features, row_model_version = version,
                     is_visible_to_student = False, created_at = now\<rparr>],
                 next_id := next_id db + 1\<rparr>))"

text \<open>
  \<open>DatabaseService.toggle_prediction_visibility\<close>; \<open>current_year\<close> is
  \<open>datetime.now().year\<close>.  The result is the message of the \<open>ValueError\<close>, or the
  number of rows updated and the database.
\<close>

definition toggle_prediction_visibility ::
  "database \<Rightarrow> int \<Rightarrow> int \<Rightarrow> bool \<Rightarrow> int option \<Rightarrow> string + (nat \<times> database)" where
  "toggle_prediction_visibility db current_year subject is_visible faculty_id =
     (if (case faculty_id of None \<Rightarrow> False | Some f \<Rightarrow> f \<noteq> 0) \<and>
         length (filter (\<lambda>(f, s, y). Some f = faculty_id \<and> s = subject \<and> y = current_year)
                   (faculty_subjects db)) = 0
      then Inl ''Faculty does not have access to this subject''
      else Inr (length (filter (\<lambda>r. row_subject_id r = subject) (ml_predictions db)),
                db\<lparr>ml_predictions :=
                     map (\<lambda>r. if row_subject_id r = subject
                               then r\<lparr>is_visible_to_student := is_visible\<rparr> else r)
                       (ml_predictions db)\<rparr>))"


section \<open>The batch route\<close>

text \<open>
  A prediction of the batch after the saving loop of the route \<open>/predict/batch\<close>: a
  saved one has the key \<open>prediction_id\<close>, one whose saving raised has \<open>save_error\<close>.
\<close>

record saved_item = batch_item +
  prediction_id :: "int option"
  save_error :: "string option"

text \<open>
  The loop at lines 267 to 283 of \<open>app.py\<close>.  \<open>save\<close> is the call of
  \<open>database_service.save_prediction\<close> on a successful item: the message of the
  exception it raises or the id, and the database after it.
\<close>

fun save_predictions ::
  "('db \<Rightarrow> batch_item \<Rightarrow> (string + int) \<times> 'db) \<Rightarrow> 'db \<Rightarrow> batch_item list
     \<Rightarrow> saved_item list \<times> nat \<times> 'db" where
  "save_predictions save db [] = ([], 0, db)"
| "save_predictions save db (prediction # rest) =
     (if success (item_result prediction) then
        (case save db prediction of
           (Inr new_id, db') \<Rightarrow>
             (let (items, saved, db'') = save_predictions save db' rest
              in (batch_item.extend prediction
                    \<lparr>prediction_id = Some new_id, save_error = None\<rparr> # items,
                  Suc saved, db''))
         | (Inl e, db') \<Rightarrow>
             (let (items, saved, db'') = save_predictions save db' rest
              in (batch_item.extend prediction
                    \<lparr>prediction_id = None, save_error = Some e\<rparr> # items,
                  saved, db'')))
      else
        (let (items, saved, db'') = save_predictions save db rest
         in (batch_item.extend prediction \<lparr>prediction_id = None, save_error = None\<rparr> # items,
             saved, db'')))"

text \<open>
  The route \<open>POST /predict/batch\<close> after the check that both services exist.  The
  request body is the JSON object, if any; \<open>students_query\<close> is the outcome of
  \<open>database_service.get_students_for_prediction\<close>.
\<close>

datatype batch_response =
    BatchError nat string
  | BatchOk
      (total_students: nat)
      (successful_predictions: nat)
      (saved_predictions: nat)
      (predictions: "saved_item list")

definition batch_predict_route ::
  "prediction_service \<Rightarrow> model_store \<Rightarrow> 'db \<Rightarrow> (string \<rightharpoonup> int) option
     \<Rightarrow> (int \<Rightarrow> int option \<Rightarrow> string + student_data list)
     \<Rightarrow> ('db \<Rightarrow> batch_item \<Rightarrow> (string + int) \<times> 'db)
     \<Rightarrow> batch_response \<times> prediction_service \<times> 'db" where
  "batch_predict_route self disk db body students_query save =
     (case body of
        None \<Rightarrow> (BatchError 400 ''Request body is required'', self, db)
      | Some data \<Rightarrow>
          if data = Map.empty then (BatchError 400 ''Request body is required'', self, db)
          else
            (case data ''subject_id'' of
               None \<Rightarrow> (BatchError 400 ''subject_id is required'', self, db)
             | Some sid \<Rightarrow>
                 if sid = 0 then (BatchError 400 ''subject_id is required'', self, db)
                 else
                   (case students_query sid (data ''academic_year'') of
                      Inl e \<Rightarrow> (BatchError 500 e, self, db)
                    | Inr students_data \<Rightarrow>
                        if students_data = [] then
                          (BatchError 404 ''No students found for the subject'', self, db)
                        else
                          (let (results, self') = batch_predict self disk students_data (Some sid);
                               (items, saved, db') = save_predictions save db results
                           in (BatchOk (length students_data)
                                 (length (filter (\<lambda>p. success (item_result p)) results))
                                 saved items,
                               self', db')))))"


section \<open>Example inputs\<close>

text \<open>
  A service whose only model is the general one, one with a production-best and a
  subject model, one with a production model of another name, and the student record
  of the test suite.  \<open>raw_150\<close> is a regressor that answers 150 on every row.
\<close>

definition raw_150 :: model where
  "raw_150 = (\<lambda>features. Inr 150)"

definition raw_70 :: model where
  "raw_70 = (\<lambda>features. Inr 70)"

definition general_only_service :: prediction_service where
  "general_only_service =
     \<lparr>model_path = ''./models/'', models = [(''general'', raw_150)],
      model_version = ''2.0.0'', feature_columns = default_feature_columns\<rparr>"

definition production_best_service :: prediction_service where
  "production_best_service =
     \<lparr>model_path = ''./models/'',
      models = [(''subject_1'', raw_70), (''production_best'', raw_150)],
      model_version = ''2.0.0'', feature_columns = default_feature_columns\<rparr>"

definition production_other_service :: prediction_service where
  "production_other_service =
     \<lparr>model_path = ''./models/'',
      models = [(''general'', raw_70), (''production_xgboost'', raw_150)],
      model_version = ''2.0.0'', feature_columns = default_feature_columns\<rparr>"

definition empty_service :: prediction_service where
  "empty_service =
     \<lparr>model_path = ''./models/'', models = [],
      model_version = ''2.0.0'', feature_columns = default_feature_columns\<rparr>"

definition sample_student_data :: student_data where
  "sample_student_data =
     \<lparr>student_id = Some 3, subject_id = Some 1, subject_type = Some ''theory'',
      semester = Some 3, attendance_percentage = None,
      marks = [''series_test_1'' \<mapsto> 80, ''series_test_2'' \<mapsto> 85, ''lab_internal'' \<mapsto> 82]\<rparr>"


text \<open>
  A regressor that raises on a row whose first feature is 0, the service that has it as
  production-best model, a student record that holds an id only, and the collaborators
  of the batch route: a query that finds the two students and a save that answers id 7.
\<close>

definition picky_model :: model where
  "picky_model = (\<lambda>features. if features ! 0 = 0 then Inl ''Input has no marks'' else Inr 70)"

definition picky_service :: prediction_service where
  "picky_service =
     \<lparr>model_path = ''./models/'', models = [(''production_best'', picky_model)],
      model_version = ''2.0.0'', feature_columns = default_feature_columns\<rparr>"

definition bare_student_data :: student_data where
  "bare_student_data =
     \<lparr>student_id = Some 2, subject_id = None, subject_type = None, semester = None,
      attendance_percentage = None, marks = Map.empty\<rparr>"

definition two_students_query :: "int \<Rightarrow> int option \<Rightarrow> string + student_data list" where
  "two_students_query sid year = Inr [sample_student_data, bare_student_data]"

definition save_as_7 :: "unit \<Rightarrow> batch_item \<Rightarrow> (string + int) \<times> unit" where
  "save_as_7 db item = (Inr 7, db)"


text \<open>
  A database whose one prediction, of student 1 in subject 1, a faculty member has
  made visible, and in which faculty member 9 teaches subject 1 in 2025.
\<close>

definition visible_row :: prediction_row where
  "visible_row =
     \<lparr>row_id = 1, row_student_id = 1, row_subject_id = 1, row_predicted_marks = 70,
      row_confidence_score = 0.8, row_input_features = [], row_model_version = ''1.0.0'',
      is_visible_to_student = True, created_at = 5\<rparr>"

definition sample_database :: database where
  "sample_database =
     \<lparr>ml_predictions = [visible_row], next_id = 2, faculty_subjects = [(9, 1, 2025)]\<rparr>"


text \<open>
  The student record of the fallback scenario of the specification, and the keyword
  arguments of the test of \<open>get_fallback_prediction\<close>.
\<close>

definition two_marks_student_data :: student_data where
  "two_marks_student_data =
     \<lparr>student_id = Some 1, subject_id = Some 1, subject_type = Some ''theory'',
      semester = Some 3, attendance_percentage = None,
      marks = [''series_test_1'' \<mapsto> 40, ''series_test_2'' \<mapsto> 45]\<rparr>"

definition test_fallback_kwargs :: "string \<rightharpoonup> pyval" where
  "test_fallback_kwargs =
     [''student_data'' \<mapsto>
        PDict [(''series_test_1_marks'', PNum 40), (''series_test_2_marks'', PNum 45),
               (''lab_internal_marks'', PNum 42)]]"


(*THEOREMS*)

section \<open>Properties of the numeric helpers\<close>

lemma np_mean_pos: "xs \<noteq> [] \<Longrightarrow> \<forall>x\<in>set xs. 0 < x \<Longrightarrow> 0 < np_mean xs"
  unfolding np_mean_def
  by (cases xs) (auto intro!: divide_pos_pos add_pos_nonneg sum_list_nonneg simp: less_imp_le)

lemma np_var_nonneg: "0 \<le> np_var xs"
  unfolding np_var_def np_mean_def
  by (intro divide_nonneg_nonneg sum_list_nonneg) auto


section \<open>Feature builder: filling of missing internal marks\<close>

lemma prepare_prediction_features_present:
  assumes h: "\<exists>exam \<in> set internal_exams. 0 < dict_get (marks sd) exam 0"
  shows
   "(let get = (\<lambda>exam. dict_get (marks sd) exam 0);
         present = filter (\<lambda>m. 0 < m) (map get internal_exams);
         fill = (\<lambda>m. if m = 0 then np_mean present else m);
         s1 = fill (get ''series_test_1'');
         s2 = fill (get ''series_test_2'');
         lab = fill (get ''lab_internal'')
     in prepare_prediction_features self sd =
        [s1, s2, lab, np_mean [s1, s2, lab],
         (if subject_type sd = Some ''lab'' then 1 else 0),
         (case semester sd of None \<Rightarrow> 1 | Some n \<Rightarrow> of_int n)] @
        (if ''attendance_percentage'' \<in> set (feature_columns self)
         then [case attendance_percentage sd of None \<Rightarrow> 80 | Some a \<Rightarrow> a] else []))"
proof -
  define present where
    "present = filter (\<lambda>m. 0 < m) (map (\<lambda>exam. dict_get (marks sd) exam 0) internal_exams)"
  have ne: "present \<noteq> []"
    using h unfolding present_def by (auto simp: filter_empty_conv)
  have "\<forall>x\<in>set present. 0 < x"
    unfolding present_def by auto
  with ne have pos: "0 < np_mean present"
    by (rule np_mean_pos)
  have p: "filter (\<lambda>m. 0 < m)
             [dict_get (marks sd) ''series_test_1'' 0, dict_get (marks sd) ''series_test_2'' 0,
              dict_get (marks sd) ''lab_internal'' 0] = present"
    unfolding present_def internal_exams_def by simp
  show ?thesis
    unfolding prepare_prediction_features_def internal_exams_def list.map
    apply (simp only: Let_def p)
    using ne pos by simp
qed

text \<open>
  C4.  A mark is present when the source's test \<open>m > 0\<close> holds, and missing when it
  reads as 0 (an absent key reads as 0).  Whenever at least one internal mark is
  present, each missing internal is replaced by the mean of the present ones, the
  fourth feature is the mean of the three values after filling, and the vector ends
  with the subject encoding, the semester and, when the feature columns hold
  \<open>attendance_percentage\<close>, the attendance.  With \<open>{series_test_1: 80}\<close> as the only
  mark the vector is \<open>[80, 80, 80, 80, subject_encoding, semester, attendance]\<close>.
\<close>

theorem prepare_prediction_features_fills_missing:
  "((\<exists>exam \<in> set internal_exams. 0 < dict_get (marks sd) exam 0) \<longrightarrow>
    (let get = (\<lambda>exam. dict_get (marks sd) exam 0);
         present = filter (\<lambda>m. 0 < m) (map get internal_exams);
         fill = (\<lambda>m. if m = 0 then np_mean present else m);
         s1 = fill (get ''series_test_1'');
         s2 = fill (get ''series_test_2'');
         lab = fill (get ''lab_internal'')
     in prepare_prediction_features self sd =
        [s1, s2, lab, np_mean [s1, s2, lab],
         (if subject_type sd = Some ''lab'' then 1 else 0),
         (case semester sd of None \<Rightarrow> 1 | Some n \<Rightarrow> of_int n)] @
        (if ''attendance_percentage'' \<in> set (feature_columns self)
         then [case attendance_percentage sd of None \<Rightarrow> 80 | Some a \<Rightarrow> a] else []))) \<and>
   (marks sd = [''series_test_1'' \<mapsto> 80] \<and>
    ''attendance_percentage'' \<in> set (feature_columns self) \<longrightarrow>
    prepare_prediction_features self sd =
      [80, 80, 80, 80,
       (if subject_type sd = Some ''lab'' then 1 else 0),
       (case semester sd of None \<Rightarrow> 1 | Some n \<Rightarrow> of_int n),
       (case attendance_percentage sd of None \<Rightarrow> 80 | Some a \<Rightarrow> a)])"
proof (intro conjI impI)
  assume "\<exists>exam \<in> set internal_exams. 0 < dict_get (marks sd) exam 0"
  then show "let get = (\<lambda>exam. dict_get (marks sd) exam 0);
         present = filter (\<lambda>m. 0 < m) (map get internal_exams);
         fill = (\<lambda>m. if m = 0 then np_mean present else m);
         s1 = fill (get ''series_test_1'');
         s2 = fill (get ''series_test_2'');
         lab = fill (get ''lab_internal'')
     in prepare_prediction_features self sd =
        [s1, s2, lab, np_mean [s1, s2, lab],
         (if subject_type sd = Some ''lab'' then 1 else 0),
         (case semester sd of None \<Rightarrow> 1 | Some n \<Rightarrow> of_int n)] @
        (if ''attendance_percentage'' \<in> set (feature_columns self)
         then [case attendance_percentage sd of None \<Rightarrow> 80 | Some a \<Rightarrow> a] else [])"
    by (rule prepare_prediction_features_present)
next
  assume "marks sd = [''series_test_1'' \<mapsto> 80] \<and>
    ''attendance_percentage'' \<in> set (feature_columns self)"
  then show "prepare_prediction_features self sd =
      [80, 80, 80, 80,
       (if subject_type sd = Some ''lab'' then 1 else 0),
       (case semester sd of None \<Rightarrow> 1 | Some n \<Rightarrow> of_int n),
       (case attendance_percentage sd of None \<Rightarrow> 80 | Some a \<Rightarrow> a)]"
    by (simp add: prepare_prediction_features_def dict_get_def np_mean_def)
qed

theorem prepare_prediction_features_fills_missing_witness:
  "(\<exists>exam \<in> set internal_exams.
      0 < dict_get [''series_test_1'' \<mapsto> 60, ''lab_internal'' \<mapsto> (90::real)] exam 0) \<and>
   prepare_prediction_features
     \<lparr>model_path = ''./models/'', models = [], model_version = ''2.0.0'',
      feature_columns = default_feature_columns\<rparr>
     \<lparr>student_id = Some 3, subject_id = Some 1, subject_type = Some ''lab'',
      semester = Some 4, attendance_percentage = None,
      marks = [''series_test_1'' \<mapsto> 60, ''lab_internal'' \<mapsto> 90]\<rparr>
   = [60, 75, 90, 75, 1, 4, 80] \<and>
   [''series_test_1'' \<mapsto> (80::real)] = [''series_test_1'' \<mapsto> 80] \<and>
   ''attendance_percentage'' \<in> set default_feature_columns \<and>
   prepare_prediction_features
     \<lparr>model_path = ''./models/'', models = [], model_version = ''2.0.0'',
      feature_columns = default_feature_columns\<rparr>
     \<lparr>student_id = Some 3, subject_id = Some 1, subject_type = Some ''theory'',
      semester = Some 3, attendance_percentage = Some 91,
      marks = [''series_test_1'' \<mapsto> 80]\<rparr>
   = [80, 80, 80, 80, 0, 3, 91]"
proof -
  let ?self = "\<lparr>model_path = ''./models/'', models = [], model_version = ''2.0.0'',
      feature_columns = default_feature_columns\<rparr>"
  let ?a = "\<lparr>student_id = Some 3, subject_id = Some 1, subject_type = Some ''lab'',
      semester = Some 4, attendance_percentage = None,
      marks = [''series_test_1'' \<mapsto> 60, ''lab_internal'' \<mapsto> (90::real)]\<rparr>"
  let ?b = "\<lparr>student_id = Some 3, subject_id = Some 1, subject_type = Some ''theory'',
      semester = Some 3, attendance_percentage = Some 91,
      marks = [''series_test_1'' \<mapsto> (80::real)]\<rparr>"
  have h: "\<exists>exam \<in> set internal_exams.
      0 < dict_get [''series_test_1'' \<mapsto> 60, ''lab_internal'' \<mapsto> (90::real)] exam 0"
    by (simp add: internal_exams_def dict_get_def)
  have c: "''attendance_percentage'' \<in> set default_feature_columns"
    by (simp add: default_feature_columns_def)
  have 1: "prepare_prediction_features ?self ?a = [60, 75, 90, 75, 1, 4, 80]"
    using prepare_prediction_features_fills_missing [of ?a ?self] h c
    by (simp add: internal_exams_def dict_get_def np_mean_def)
  have 2: "prepare_prediction_features ?self ?b = [80, 80, 80, 80, 0, 3, 91]"
    using prepare_prediction_features_fills_missing [of ?b ?self] c
    by simp
  show ?thesis
    using h c 1 2 by simp
qed


section \<open>Confidence score: formula and range\<close>

text \<open>
  C6.  With \<open>n\<close> the number of present internal marks (those the source's test
  \<open>> 0\<close> accepts), the confidence is 0.5 plus \<open>(n / 3) * 0.3\<close>, plus, when \<open>n\<close>
  is at least 2, \<open>max(0, (100 - variance) / 100) * 0.2\<close> for the variance of the present
  marks, clipped to \<open>[0, 1]\<close>.  It lies in \<open>[0, 1]\<close>, and a record with three present
  marks scores at least as high as a record with exactly one, whatever the variance.
\<close>

theorem calculate_confidence_formula:
  "(let present = map (\<lambda>exam. dict_get (marks sd) exam 0)
                     (filter (\<lambda>exam. 0 < dict_get (marks sd) exam 0) internal_exams);
        n = length present;
        bonus = (if 2 \<le> n then max 0 ((100 - np_var present) / 100) * 0.2 else 0)
    in calculate_confidence sd features = max 0 (min 1 (0.5 + (real n / 3) * 0.3 + bonus)))
   \<and> 0 \<le> calculate_confidence sd features \<and> calculate_confidence sd features \<le> 1
   \<and> (length (filter (\<lambda>exam. 0 < dict_get (marks sd) exam 0) internal_exams) = 3 \<and>
      length (filter (\<lambda>exam. 0 < dict_get (marks sd') exam 0) internal_exams) = 1 \<longrightarrow>
      calculate_confidence sd' features' \<le> calculate_confidence sd features)"
proof (intro conjI impI)
  show "let present = map (\<lambda>exam. dict_get (marks sd) exam 0)
                     (filter (\<lambda>exam. 0 < dict_get (marks sd) exam 0) internal_exams);
        n = length present;
        bonus = (if 2 \<le> n then max 0 ((100 - np_var present) / 100) * 0.2 else 0)
    in calculate_confidence sd features = max 0 (min 1 (0.5 + (real n / 3) * 0.3 + bonus))"
    unfolding calculate_confidence_def Let_def by (simp del: filter.simps)
  show "0 \<le> calculate_confidence sd features"
    unfolding calculate_confidence_def Let_def by (simp del: filter.simps)
  show "calculate_confidence sd features \<le> 1"
    unfolding calculate_confidence_def Let_def by (simp del: filter.simps)
next
  assume h: "length (filter (\<lambda>exam. 0 < dict_get (marks sd) exam 0) internal_exams) = 3 \<and>
      length (filter (\<lambda>exam. 0 < dict_get (marks sd') exam 0) internal_exams) = 1"
  have a: "4 / 5 \<le> calculate_confidence sd features"
    using h unfolding calculate_confidence_def Let_def
    by (simp del: filter.simps add: min_def max_def)
  have b: "calculate_confidence sd' features' = 3 / 5"
    using h unfolding calculate_confidence_def Let_def
    by (simp del: filter.simps add: min_def max_def)
  show "calculate_confidence sd' features' \<le> calculate_confidence sd features"
    using a b by simp
qed


section \<open>Rounding\<close>

lemma round_half_even_lower: "of_int a \<le> x \<Longrightarrow> a \<le> round_half_even x"
proof -
  assume "of_int a \<le> x"
  then have "a \<le> \<lfloor>x\<rfloor>" by (simp add: le_floor_iff)
  then show ?thesis unfolding round_half_even_def Let_def by simp
qed

lemma round_half_even_upper: "x \<le> of_int b \<Longrightarrow> round_half_even x \<le> b"
proof (cases "x = of_int b")
  case True
  then show ?thesis unfolding round_half_even_def Let_def by simp
next
  case False
  assume "x \<le> of_int b"
  with False have "x < of_int b" by simp
  then have "\<lfloor>x\<rfloor> < b" by (simp add: floor_less_iff)
  then show ?thesis unfolding round_half_even_def Let_def by simp
qed

lemma round_half_even_close: "\<bar>of_int (round_half_even x) - x\<bar> \<le> 1 / 2"
proof -
  define f where "f = \<lfloor>x\<rfloor>"
  have a: "of_int f \<le> x" "x < of_int f + 1" unfolding f_def by linarith+
  have "round_half_even x = (if x - of_int f < 1 / 2 then f
         else if 1 / 2 < x - of_int f then f + 1
         else if even f then f else f + 1)"
    unfolding round_half_even_def Let_def f_def by simp
  then show ?thesis using a by (simp split: if_splits)
qed

lemma py_round_2_bounds: "0 \<le> x \<Longrightarrow> x \<le> 100 \<Longrightarrow> 0 \<le> py_round x 2 \<and> py_round x 2 \<le> 100"
proof -
  assume a: "0 \<le> x" "x \<le> 100"
  have "of_int 0 \<le> x * 10 ^ 2" using a by simp
  then have l: "0 \<le> round_half_even (x * 10 ^ 2)" by (rule round_half_even_lower)
  have "x * 10 ^ 2 \<le> of_int 10000" using a by simp
  then have u: "round_half_even (x * 10 ^ 2) \<le> 10000" by (rule round_half_even_upper)
  have "py_round x 2 \<le> 100"
    unfolding py_round_def using u by (simp add: divide_le_eq)
  moreover have "0 \<le> py_round x 2"
    unfolding py_round_def using l by simp
  ultimately show ?thesis by simp
qed

lemma py_round_2_close: "\<bar>py_round x 2 - x\<bar> \<le> 1 / 200"
proof -
  have "\<bar>of_int (round_half_even (x * 10 ^ 2)) - x * 10 ^ 2\<bar> \<le> 1 / 2"
    by (rule round_half_even_close)
  then have "\<bar>(of_int (round_half_even (x * 10 ^ 2)) - x * 10 ^ 2) / 100\<bar> \<le> (1 / 2) / 100"
    by (simp only: abs_divide) (simp add: divide_le_eq)
  then show ?thesis unfolding py_round_def by (simp add: diff_divide_distrib)
qed

lemma py_round_2_int: "py_round 0 2 = 0" "py_round 100 2 = 100"
  by (simp_all add: py_round_def round_half_even_def)


section \<open>Model resolution\<close>

lemma update_absent: "map_of xs k = None \<Longrightarrow> AList.update k v xs = xs @ [(k, v)]"
  by (induction xs) (auto split: if_splits)

lemma subject_key_of_examples:
  "subject_key_of None = ''general''" "subject_key_of (Some 0) = ''general''"
  "subject_key_of (Some 1) = ''subject_1''"
  by (simp_all add: subject_key_of_def str_int_def str_nat.simps)

lemma subject_key_not_production:
  "\<not> startswith (subject_key_of sid) ''production_''" "subject_key_of sid \<noteq> ''production_best''"
  unfolding subject_key_of_def startswith_def
  by (auto split: option.splits)

lemma resolve_examples:
  "resolve_model general_only_service Map.empty None =
     Inr (''general'', raw_150, general_only_service)"
  "resolve_model general_only_service Map.empty (Some 1) =
     Inl ''No trained model found. Please train a model first.''"
  "resolve_model production_best_service Map.empty (Some 1) =
     Inr (''production_best'', raw_150, production_best_service)"
  "resolve_model production_other_service Map.empty (Some 1) =
     Inr (''production_xgboost'', raw_150, production_other_service)"
  "resolve_model empty_service Map.empty None =
     Inl ''No trained model found. Please train a model first.''"
  "resolve_model picky_service Map.empty (Some 1) =
     Inr (''production_best'', picky_model, picky_service)"
  by (simp_all add: resolve_model_def general_only_service_def production_best_service_def
        production_other_service_def empty_service_def picky_service_def
        subject_key_of_examples startswith_def Let_def os_path_join_def)

text \<open>
  C2, as the source has it.  A model registered as \<open>production_best\<close> is used first;
  otherwise the first registered model whose key starts with \<open>production_\<close>; otherwise
  one key only is tried, \<open>subject_{id}\<close> when a non-zero subject id is given and
  \<open>general\<close> when it is not: the model registered under that key, or else the one
  loaded from the file of that key in the model directory, which is then registered.
  When neither exists, the call returns the failure \<open>No trained model found\<close>; the
  general model is no substitute for a missing subject model.  A successful result
  names the resolved key as \<open>model_used\<close>.
\<close>

theorem resolve_model_priority:
  "(map_of (models self) ''production_best'' = Some m \<longrightarrow>
      resolve_model self disk sid = Inr (''production_best'', m, self)) \<and>
   (map_of (models self) ''production_best'' = None \<and>
    filter (\<lambda>(k, m). startswith k ''production_'') (models self) = (k, m) # others \<longrightarrow>
      resolve_model self disk sid = Inr (k, m, self)) \<and>
   (map_of (models self) ''production_best'' = None \<and>
    filter (\<lambda>(k, m). startswith k ''production_'') (models self) = [] \<longrightarrow>
      (let subject_key = subject_key_of sid;
           path = os_path_join (model_path self)
                    (subject_key @ ''_model_'' @ model_version self @ ''.joblib'')
       in (map_of (models self) subject_key = Some m \<longrightarrow>
             resolve_model self disk sid = Inr (subject_key, m, self)) \<and>
          (map_of (models self) subject_key = None \<and> disk path = Some (Inr m) \<longrightarrow>
             resolve_model self disk sid =
               Inr (subject_key, m, self\<lparr>models := models self @ [(subject_key, m)]\<rparr>)) \<and>
          (map_of (models self) subject_key = None \<and> disk path = Some (Inl e) \<longrightarrow>
             resolve_model self disk sid = Inl e) \<and>
          (map_of (models self) subject_key = None \<and> disk path = None \<longrightarrow>
             resolve_model self disk sid =
               Inl ''No trained model found. Please train a model first.''))) \<and>
   (\<forall>n. subject_key_of (Some n) = (if n \<noteq> 0 then ''subject_'' @ str_int n else ''general'')) \<and>
   subject_key_of None = ''general'' \<and>
   (\<forall>e. resolve_model self disk sid = Inl e \<longrightarrow>
      predict_university_marks self disk sd sid = (PredictionFailed e, self)) \<and>
   (\<forall>r s. predict_university_marks self disk sd sid = (r, s) \<and> success r \<longrightarrow>
      (\<exists>model. resolve_model self disk sid = Inr (model_used r, model, s)))"
proof (intro conjI impI allI)
  assume "map_of (models self) ''production_best'' = Some m"
  then show "resolve_model self disk sid = Inr (''production_best'', m, self)"
    unfolding resolve_model_def by simp
next
  assume "map_of (models self) ''production_best'' = None \<and>
    filter (\<lambda>(k, m). startswith k ''production_'') (models self) = (k, m) # others"
  then show "resolve_model self disk sid = Inr (k, m, self)"
    unfolding resolve_model_def by simp
next
  assume a: "map_of (models self) ''production_best'' = None \<and>
    filter (\<lambda>(k, m). startswith k ''production_'') (models self) = []"
  show "let subject_key = subject_key_of sid;
           path = os_path_join (model_path self)
                    (subject_key @ ''_model_'' @ model_version self @ ''.joblib'')
       in (map_of (models self) subject_key = Some m \<longrightarrow>
             resolve_model self disk sid = Inr (subject_key, m, self)) \<and>
          (map_of (models self) subject_key = None \<and> disk path = Some (Inr m) \<longrightarrow>
             resolve_model self disk sid =
               Inr (subject_key, m, self\<lparr>models := models self @ [(subject_key, m)]\<rparr>)) \<and>
          (map_of (models self) subject_key = None \<and> disk path = Some (Inl e) \<longrightarrow>
             resolve_model self disk sid = Inl e) \<and>
          (map_of (models self) subject_key = None \<and> disk path = None \<longrightarrow>
             resolve_model self disk sid =
               Inl ''No trained model found. Please train a model first.'')"
    using a unfolding resolve_model_def Let_def
    by (simp add: update_absent)
next
  fix n show "subject_key_of (Some n) = (if n \<noteq> 0 then ''subject_'' @ str_int n else ''general'')"
    by (simp add: subject_key_of_def)
next
  show "subject_key_of None = ''general''"
    by (simp add: subject_key_of_def)
next
  fix e assume "resolve_model self disk sid = Inl e"
  then show "predict_university_marks self disk sd sid = (PredictionFailed e, self)"
    unfolding predict_university_marks_def by simp
next
  fix r s assume "predict_university_marks self disk sd sid = (r, s) \<and> success r"
  then show "\<exists>model. resolve_model self disk sid = Inr (model_used r, model, s)"
    unfolding predict_university_marks_def Let_def
    by (auto split: sum.splits prod.splits)
qed

text \<open>
  The claim as the specification states it fails: with the general model as the only
  one registered and nothing in the model directory, the prediction for subject 1 does
  not use the general model but fails.
\<close>

theorem resolve_model_general_counterexample:
  "fst (predict_university_marks general_only_service Map.empty sample_student_data (Some 1)) =
     PredictionFailed ''No trained model found. Please train a model first.''"
  by (simp add: predict_university_marks_def resolve_examples)


section \<open>Prediction: the clipped estimate\<close>

text \<open>
  C5.  A successful result comes from a resolved model whose raw output \<open>raw\<close> on the
  feature vector is clipped to \<open>[0, 100]\<close> and rounded to two decimals: the predicted
  marks are 100 for a raw output above 100, 0 for one below 0, within 0.005 of an
  in-range raw output, and always in \<open>[0, 100]\<close>.
\<close>

theorem predicted_marks_clipped:
  "predict_university_marks self disk sd sid = (r, self') \<Longrightarrow> success r \<Longrightarrow>
   (\<exists>model_key model raw.
      resolve_model self disk sid = Inr (model_key, model, self') \<and>
      model (prepare_prediction_features self' sd) = Inr raw \<and>
      predicted_marks r = py_round (max 0 (min 100 raw)) 2 \<and>
      0 \<le> predicted_marks r \<and> predicted_marks r \<le> 100 \<and>
      (100 < raw \<longrightarrow> predicted_marks r = 100) \<and>
      (raw < 0 \<longrightarrow> predicted_marks r = 0) \<and>
      (0 \<le> raw \<and> raw \<le> 100 \<longrightarrow> \<bar>predicted_marks r - raw\<bar> \<le> 1 / 200))"
proof -
  assume p: "predict_university_marks self disk sd sid = (r, self')" and s: "success r"
  from p s obtain model_key model raw where
    res: "resolve_model self disk sid = Inr (model_key, model, self')"
    and raw: "model (prepare_prediction_features self' sd) = Inr raw"
    and pm: "predicted_marks r = py_round (max 0 (min 100 raw)) 2"
    unfolding predict_university_marks_def Let_def
    by (auto split: sum.splits prod.splits)
  have b: "0 \<le> max 0 (min 100 raw)" "max 0 (min 100 raw) \<le> 100" by simp_all
  have "0 \<le> predicted_marks r \<and> predicted_marks r \<le> 100"
    unfolding pm using b by (rule py_round_2_bounds)
  moreover have "100 < raw \<longrightarrow> predicted_marks r = 100"
    unfolding pm by (simp add: py_round_2_int)
  moreover have "raw < 0 \<longrightarrow> predicted_marks r = 0"
    unfolding pm by (simp add: py_round_2_int max_def min_def)
  moreover have "0 \<le> raw \<and> raw \<le> 100 \<longrightarrow> \<bar>predicted_marks r - raw\<bar> \<le> 1 / 200"
    unfolding pm using py_round_2_close [of raw]
    by (simp add: max_def min_def py_round_2_int)
  ultimately show ?thesis using res raw pm by blast
qed

theorem predicted_marks_clipped_witness:
  "predict_university_marks general_only_service Map.empty sample_student_data None =
     (fst (predict_university_marks general_only_service Map.empty sample_student_data None),
      general_only_service) \<and>
   success (fst (predict_university_marks general_only_service Map.empty sample_student_data None)) \<and>
   predicted_marks
     (fst (predict_university_marks general_only_service Map.empty sample_student_data None)) = 100"
proof -
  let ?r = "fst (predict_university_marks general_only_service Map.empty sample_student_data None)"
  have p: "predict_university_marks general_only_service Map.empty sample_student_data None =
     (?r, general_only_service)"
    by (simp add: predict_university_marks_def resolve_examples raw_150_def Let_def)
  have s: "success ?r"
    by (simp add: predict_university_marks_def resolve_examples raw_150_def Let_def)
  from predicted_marks_clipped [OF p s] obtain model_key model raw where
    "resolve_model general_only_service Map.empty None = Inr (model_key, model, general_only_service)"
    "model (prepare_prediction_features general_only_service sample_student_data) = Inr raw"
    "100 < raw \<longrightarrow> predicted_marks ?r = 100"
    by blast
  then have "predicted_marks ?r = 100"
    by (auto simp: resolve_examples raw_150_def)
  with p s show ?thesis by simp
qed



section \<open>Confidence score: three marks against one\<close>

theorem calculate_confidence_formula_witness:
  "length (filter (\<lambda>exam. 0 < dict_get (marks sample_student_data) exam 0) internal_exams) = 3 \<and>
   length (filter (\<lambda>exam. 0 < dict_get (marks (sample_student_data\<lparr>marks := [''series_test_1'' \<mapsto> 80]\<rparr>)) exam 0)
             internal_exams) = 1 \<and>
   calculate_confidence (sample_student_data\<lparr>marks := [''series_test_1'' \<mapsto> 80]\<rparr>) [80, 80, 80, 80, 0, 3]
     \<le> calculate_confidence sample_student_data [80, 85, 82, 247 / 3, 0, 3]"
proof -
  have h: "length (filter (\<lambda>exam. 0 < dict_get (marks sample_student_data) exam 0) internal_exams) = 3 \<and>
   length (filter (\<lambda>exam. 0 < dict_get (marks (sample_student_data\<lparr>marks := [''series_test_1'' \<mapsto> 80]\<rparr>)) exam 0)
             internal_exams) = 1"
    by (simp add: sample_student_data_def internal_exams_def dict_get_def)
  with calculate_confidence_formula
         [of sample_student_data "[80, 85, 82, 247 / 3, 0, 3]"
             "sample_student_data\<lparr>marks := [''series_test_1'' \<mapsto> 80]\<rparr>" "[80, 80, 80, 80, 0, 3]"]
  show ?thesis by blast
qed


section \<open>Model resolution on the example services\<close>

lemma general_path:
  "os_path_join (model_path empty_service) (subject_key_of None @ ''_model_'' @ model_version empty_service @ ''.joblib'')
     = ''./models/general_model_2.0.0.joblib''"
  "os_path_join (model_path general_only_service) (subject_key_of (Some 1) @ ''_model_'' @ model_version general_only_service @ ''.joblib'')
     = ''./models/subject_1_model_2.0.0.joblib''"
  by (simp_all add: os_path_join_def empty_service_def general_only_service_def subject_key_of_examples)

theorem resolve_model_priority_witness:
  "map_of (models production_best_service) ''production_best'' = Some raw_150 \<and>
   resolve_model production_best_service Map.empty (Some 1) =
     Inr (''production_best'', raw_150, production_best_service) \<and>
   map_of (models production_other_service) ''production_best'' = None \<and>
   filter (\<lambda>(k, m). startswith k ''production_'') (models production_other_service) =
     (''production_xgboost'', raw_150) # [] \<and>
   resolve_model production_other_service Map.empty (Some 1) =
     Inr (''production_xgboost'', raw_150, production_other_service) \<and>
   map_of (models general_only_service) ''production_best'' = None \<and>
   filter (\<lambda>(k, m). startswith k ''production_'') (models general_only_service) = [] \<and>
   map_of (models general_only_service) (subject_key_of None) = Some raw_150 \<and>
   resolve_model general_only_service Map.empty None =
     Inr (''general'', raw_150, general_only_service) \<and>
   map_of (models general_only_service) (subject_key_of (Some 1)) = None \<and>
   resolve_model general_only_service Map.empty (Some 1) =
     Inl ''No trained model found. Please train a model first.'' \<and>
   predict_university_marks general_only_service Map.empty sample_student_data (Some 1) =
     (PredictionFailed ''No trained model found. Please train a model first.'',
      general_only_service) \<and>
   map_of (models empty_service) ''production_best'' = None \<and>
   filter (\<lambda>(k, m). startswith k ''production_'') (models empty_service) = [] \<and>
   map_of (models empty_service) (subject_key_of None) = None \<and>
   resolve_model empty_service [''./models/general_model_2.0.0.joblib'' \<mapsto> Inr raw_70] None =
     Inr (''general'', raw_70, empty_service\<lparr>models := [(''general'', raw_70)]\<rparr>) \<and>
   resolve_model empty_service [''./models/general_model_2.0.0.joblib'' \<mapsto> Inl ''corrupt file''] None =
     Inl ''corrupt file'' \<and>
   success (fst (predict_university_marks production_best_service Map.empty sample_student_data (Some 1))) \<and>
   model_used (fst (predict_university_marks production_best_service Map.empty sample_student_data (Some 1))) =
     ''production_best''"
proof -
  have a1: "map_of (models production_best_service) ''production_best'' = Some raw_150"
    by (simp add: production_best_service_def)
  have a2: "resolve_model production_best_service Map.empty (Some 1) =
     Inr (''production_best'', raw_150, production_best_service)"
    using resolve_model_priority [where self = production_best_service and m = raw_150
        and disk = Map.empty and sid = "Some 1"] a1 by simp
  have b1: "map_of (models production_other_service) ''production_best'' = None \<and>
    filter (\<lambda>(k, m). startswith k ''production_'') (models production_other_service) =
      (''production_xgboost'', raw_150) # []"
    by (simp add: production_other_service_def startswith_def)
  have b2: "resolve_model production_other_service Map.empty (Some 1) =
     Inr (''production_xgboost'', raw_150, production_other_service)"
    using resolve_model_priority [where self = production_other_service and m = raw_150
        and k = "''production_xgboost''" and others = "[]"
        and disk = Map.empty and sid = "Some 1"] b1 by simp
  have c1: "map_of (models general_only_service) ''production_best'' = None \<and>
    filter (\<lambda>(k, m). startswith k ''production_'') (models general_only_service) = []"
    by (simp add: general_only_service_def startswith_def)
  have c2: "map_of (models general_only_service) (subject_key_of None) = Some raw_150"
    by (simp add: general_only_service_def subject_key_of_examples)
  have c3: "resolve_model general_only_service Map.empty None =
     Inr (''general'', raw_150, general_only_service)"
    using resolve_model_priority [where self = general_only_service and m = raw_150
        and disk = Map.empty and sid = None] c1 c2
    by (simp add: Let_def subject_key_of_examples)
  have d1: "map_of (models general_only_service) (subject_key_of (Some 1)) = None"
    by (simp add: general_only_service_def subject_key_of_examples)
  have d2: "resolve_model general_only_service Map.empty (Some 1) =
     Inl ''No trained model found. Please train a model first.''"
    using resolve_model_priority [where self = general_only_service
        and disk = Map.empty and sid = "Some 1"] c1 d1
    by (simp add: Let_def)
  have d3: "predict_university_marks general_only_service Map.empty sample_student_data (Some 1) =
     (PredictionFailed ''No trained model found. Please train a model first.'',
      general_only_service)"
    using resolve_model_priority [where self = general_only_service
        and disk = Map.empty and sid = "Some 1" and sd = sample_student_data] d2
    by blast
  have e1: "map_of (models empty_service) ''production_best'' = None \<and>
    filter (\<lambda>(k, m). startswith k ''production_'') (models empty_service) = []"
    by (simp add: empty_service_def)
  have e2: "map_of (models empty_service) (subject_key_of None) = None"
    by (simp add: empty_service_def)
  have e3: "resolve_model empty_service [''./models/general_model_2.0.0.joblib'' \<mapsto> Inr raw_70] None =
     Inr (''general'', raw_70, empty_service\<lparr>models := [(''general'', raw_70)]\<rparr>)"
    using resolve_model_priority [where self = empty_service and m = raw_70
        and disk = "[''./models/general_model_2.0.0.joblib'' \<mapsto> Inr raw_70]" and sid = None] e1 e2
    by (simp add: Let_def subject_key_of_examples empty_service_def os_path_join_def)
  have e4: "resolve_model empty_service [''./models/general_model_2.0.0.joblib'' \<mapsto> Inl ''corrupt file''] None =
     Inl ''corrupt file''"
    using resolve_model_priority [where self = empty_service and e = "''corrupt file''"
        and disk = "[''./models/general_model_2.0.0.joblib'' \<mapsto> Inl ''corrupt file'']" and sid = None] e1 e2
    by (simp add: Let_def subject_key_of_examples empty_service_def os_path_join_def)
  let ?r = "fst (predict_university_marks production_best_service Map.empty sample_student_data (Some 1))"
  have f1: "predict_university_marks production_best_service Map.empty sample_student_data (Some 1) =
      (?r, production_best_service) \<and> success ?r"
    by (simp add: predict_university_marks_def a2 raw_150_def Let_def)
  have g: "\<forall>r s. predict_university_marks production_best_service Map.empty sample_student_data (Some 1) = (r, s) \<and> success r \<longrightarrow>
      (\<exists>model. resolve_model production_best_service Map.empty (Some 1) = Inr (model_used r, model, s))"
    using resolve_model_priority [where self = production_best_service
        and disk = Map.empty and sid = "Some 1" and sd = sample_student_data,
        THEN conjunct2, THEN conjunct2, THEN conjunct2, THEN conjunct2, THEN conjunct2,
        THEN conjunct2]
    by assumption
  from g f1 obtain model where
    "resolve_model production_best_service Map.empty (Some 1) =
       Inr (model_used ?r, model, production_best_service)"
    by blast
  with a2 have f2: "model_used ?r = ''production_best''"
    by simp
  note b1a = b1 [THEN conjunct1] and b1b = b1 [THEN conjunct2]
   and c1a = c1 [THEN conjunct1] and c1b = c1 [THEN conjunct2]
   and e1a = e1 [THEN conjunct1] and e1b = e1 [THEN conjunct2]
   and f1b = f1 [THEN conjunct2]
  show ?thesis
    by (intro conjI; (rule a1 a2 b1a b1b b2 c1a c1b c2 c3 d1 d2 d3 e1a e1b e2 e3 e4 f1b f2))
qed


section \<open>Batch prediction\<close>

lemma resolve_model_cases:
  assumes "resolve_model self disk sid = Inr (key, m, self1)"
  shows "self1 = self \<or>
         (self1 = self\<lparr>models := models self @ [(subject_key_of sid, m)]\<rparr> \<and>
          key = subject_key_of sid \<and>
          map_of (models self) ''production_best'' = None \<and>
          filter (\<lambda>(k, m). startswith k ''production_'') (models self) = [] \<and>
          map_of (models self) (subject_key_of sid) = None)"
proof (cases "map_of (models self) ''production_best''")
  case (Some a)
  with assms show ?thesis unfolding resolve_model_def by simp
next
  case None
  note pb = this
  show ?thesis
  proof (cases "filter (\<lambda>(k, m). startswith k ''production_'') (models self)")
    case (Cons p ps)
    with assms pb show ?thesis
      unfolding resolve_model_def by (cases p) simp
  next
    case Nil
    note np = this
    show ?thesis
    proof (cases "map_of (models self) (subject_key_of sid)")
      case (Some a)
      with assms pb np show ?thesis unfolding resolve_model_def by (simp add: Let_def)
    next
      case None
      note ns = this
      show ?thesis
      proof (cases "disk (os_path_join (model_path self)
                      (subject_key_of sid @ ''_model_'' @ model_version self @ ''.joblib''))")
        case None
        with assms pb np ns show ?thesis unfolding resolve_model_def by (simp add: Let_def)
      next
        case (Some loaded)
        with assms pb np ns show ?thesis
          unfolding resolve_model_def
          by (cases loaded) (auto simp: Let_def update_absent)
      qed
    qed
  qed
qed

lemma resolve_model_cached:
  assumes "resolve_model self disk sid = Inr (key, m, self1)"
  shows "resolve_model self1 disk sid = Inr (key, m, self1)"
proof -
  from resolve_model_cases [OF assms] show ?thesis
  proof
    assume "self1 = self"
    with assms show ?thesis by simp
  next
    assume a: "self1 = self\<lparr>models := models self @ [(subject_key_of sid, m)]\<rparr> \<and>
          key = subject_key_of sid \<and>
          map_of (models self) ''production_best'' = None \<and>
          filter (\<lambda>(k, m). startswith k ''production_'') (models self) = [] \<and>
          map_of (models self) (subject_key_of sid) = None"
    then show ?thesis
      unfolding resolve_model_def Let_def
      by (simp add: subject_key_not_production map_add_def)
  qed
qed

lemma resolve_model_fields:
  assumes "resolve_model self disk sid = Inr (key, m, self1)"
  shows "feature_columns self1 = feature_columns self" "model_version self1 = model_version self"
        "model_path self1 = model_path self"
  using resolve_model_cases [OF assms] by auto

lemma predict_state:
  "snd (predict_university_marks self disk sd sid) =
     (case resolve_model self disk sid of Inl e \<Rightarrow> self | Inr (key, m, self1) \<Rightarrow> self1)"
  unfolding predict_university_marks_def Let_def
  by (auto split: sum.splits prod.splits)

lemma prepare_prediction_features_cong:
  "feature_columns s1 = feature_columns s \<Longrightarrow>
   prepare_prediction_features s1 sd = prepare_prediction_features s sd"
  unfolding prepare_prediction_features_def by simp

lemma predict_stable:
  assumes "predict_university_marks self disk sd0 sid = (r0, self1)"
  shows "fst (predict_university_marks self1 disk sd sid) = fst (predict_university_marks self disk sd sid)"
    and "snd (predict_university_marks self1 disk sd sid) = self1"
proof -
  show "fst (predict_university_marks self1 disk sd sid) = fst (predict_university_marks self disk sd sid)"
  proof (cases "resolve_model self disk sid")
    case (Inl e)
    with assms have "self1 = self" unfolding predict_university_marks_def by simp
    then show ?thesis by simp
  next
    case (Inr t)
    obtain key m s1 where t: "t = (key, m, s1)" by (cases t) auto
    with Inr have r: "resolve_model self disk sid = Inr (key, m, s1)" by simp
    with assms have "self1 = s1" using predict_state [of self disk sd0 sid] by simp
    with r have r1: "resolve_model self disk sid = Inr (key, m, self1)" by simp
    note c = resolve_model_cached [OF r1] and f = resolve_model_fields [OF r1]
    show ?thesis
      unfolding predict_university_marks_def Let_def
      by (simp add: r1 c f prepare_prediction_features_cong [OF f(1)])
  qed
  show "snd (predict_university_marks self1 disk sd sid) = self1"
  proof (cases "resolve_model self disk sid")
    case (Inl e)
    with assms have "self1 = self" unfolding predict_university_marks_def by simp
    with Inl show ?thesis by (simp add: predict_state)
  next
    case (Inr t)
    obtain key m s1 where t: "t = (key, m, s1)" by (cases t) auto
    with Inr have r: "resolve_model self disk sid = Inr (key, m, s1)" by simp
    with assms have "self1 = s1" using predict_state [of self disk sd0 sid] by simp
    with r have r1: "resolve_model self disk sid = Inr (key, m, self1)" by simp
    show ?thesis by (simp add: predict_state resolve_model_cached [OF r1])
  qed
qed

lemma batch_predict_map:
  "fst (batch_predict self disk students_data sid) =
     map (\<lambda>sd. \<lparr>item_result = fst (predict_university_marks self disk sd sid),
                item_student_id = student_id sd, item_subject_id = subject_id sd\<rparr>)
       students_data"
proof -
  have gen: "(\<forall>sd. fst (predict_university_marks s disk sd sid) = fst (predict_university_marks self disk sd sid)) \<Longrightarrow>
     fst (batch_predict s disk students_data sid) =
     map (\<lambda>sd. \<lparr>item_result = fst (predict_university_marks self disk sd sid),
                item_student_id = student_id sd, item_subject_id = subject_id sd\<rparr>)
       students_data" for s
  proof (induction students_data arbitrary: s)
    case Nil
    then show ?case by simp
  next
    case (Cons sd rest)
    obtain r s1 where p: "predict_university_marks s disk sd sid = (r, s1)"
      by (cases "predict_university_marks s disk sd sid") auto
    have "\<forall>x. fst (predict_university_marks s1 disk x sid) = fst (predict_university_marks self disk x sid)"
      using predict_stable(1) [OF p] Cons.prems by simp
    from Cons.IH [OF this] have ih: "fst (batch_predict s1 disk rest sid) =
      map (\<lambda>sd. \<lparr>item_result = fst (predict_university_marks self disk sd sid),
                item_student_id = student_id sd, item_subject_id = subject_id sd\<rparr>) rest" .
    have "r = fst (predict_university_marks self disk sd sid)"
      using p Cons.prems by (metis fst_conv)
    then show ?case using p ih by (simp add: split_beta)
  qed
  show ?thesis by (rule gen) simp
qed

lemma truncate_extend: "batch_item.truncate (batch_item.extend p ext) = p"
  by (cases p) (simp add: batch_item.defs)

lemma save_predictions_items:
  "map batch_item.truncate (fst (save_predictions save db results)) = results"
  by (induction results arbitrary: db)
     (auto simp: split_beta truncate_extend split: prod.splits sum.splits)

lemma success_truncate: "success (item_result (batch_item.truncate p)) = success (item_result p)"
  by (simp add: batch_item.defs)

lemma save_predictions_success:
  "filter (\<lambda>p. success (item_result p)) results =
   map batch_item.truncate
     (filter (\<lambda>p. success (item_result p)) (fst (save_predictions save db results)))"
proof -
  have "filter (\<lambda>p. success (item_result p))
          (map batch_item.truncate (fst (save_predictions save db results))) =
        map batch_item.truncate
          (filter (\<lambda>p. success (item_result p)) (fst (save_predictions save db results)))"
    by (simp add: filter_map comp_def success_truncate)
  then show ?thesis by (simp only: save_predictions_items)
qed

lemma route_eq:
  assumes "body = Some data" "data \<noteq> Map.empty" "data ''subject_id'' = Some sid" "sid \<noteq> 0"
    "students_query sid (data ''academic_year'') = Inr students" "students \<noteq> []"
  shows "fst (batch_predict_route self disk db body students_query save) =
     BatchOk (length students)
       (length (filter (\<lambda>p. success (item_result p)) (fst (batch_predict self disk students (Some sid)))))
       (fst (snd (save_predictions save db (fst (batch_predict self disk students (Some sid))))))
       (fst (save_predictions save db (fst (batch_predict self disk students (Some sid)))))"
  using assms unfolding batch_predict_route_def by (simp add: split_beta)


lemma route_ok:
  assumes a: "fst (batch_predict_route self disk db body students_query save) = BatchOk n_students ok saved items"
  shows "\<exists>data sid students.
           body = Some data \<and> data ''subject_id'' = Some sid \<and> sid \<noteq> 0 \<and>
           students_query sid (data ''academic_year'') = Inr students \<and>
           n_students = length students \<and>
           map batch_item.truncate items = fst (batch_predict self disk students (Some sid)) \<and>
           ok = length (filter (\<lambda>p. success (item_result p)) items)"
proof (cases body)
  case None
  with a show ?thesis unfolding batch_predict_route_def by simp
next
  case (Some data)
  note b = this
  show ?thesis
  proof (cases "data = Map.empty")
    case True
    with a b show ?thesis unfolding batch_predict_route_def by simp
  next
    case False
    note ne = this
    show ?thesis
    proof (cases "data ''subject_id''")
      case None
      with a b ne show ?thesis unfolding batch_predict_route_def by simp
    next
      case (Some sid)
      note s = this
      show ?thesis
      proof (cases "sid = 0")
        case True
        with a b ne s show ?thesis unfolding batch_predict_route_def by simp
      next
        case False
        note s0 = this
        show ?thesis
        proof (cases "students_query sid (data ''academic_year'')")
          case (Inl e)
          with a b ne s s0 show ?thesis unfolding batch_predict_route_def by simp
        next
          case (Inr students)
          note q = this
          show ?thesis
          proof (cases "students = []")
            case True
            with a b ne s s0 q show ?thesis unfolding batch_predict_route_def by simp
          next
            case False
            let ?results = "fst (batch_predict self disk students (Some sid))"
            have "fst (batch_predict_route self disk db body students_query save) =
               BatchOk (length students)
                 (length (filter (\<lambda>p. success (item_result p)) ?results))
                 (fst (snd (save_predictions save db ?results)))
                 (fst (save_predictions save db ?results))"
              using b ne s s0 q False by (rule route_eq)
            with a have t: "n_students = length students"
              and o: "ok = length (filter (\<lambda>p. success (item_result p)) ?results)"
              and i: "items = fst (save_predictions save db ?results)"
              by simp_all
            have m: "map batch_item.truncate items = ?results"
              unfolding i by (rule save_predictions_items)
            have "length (filter (\<lambda>p. success (item_result p)) ?results) =
                  length (filter (\<lambda>p. success (item_result p)) items)"
              unfolding i
              by (subst save_predictions_success [of ?results save db]) (simp only: length_map)
            with o have "ok = length (filter (\<lambda>p. success (item_result p)) items)" by simp
            with b s s0 q t m show ?thesis by blast
          qed
        qed
      qed
    qed
  qed
qed


text \<open>
  C7.  The batch call returns one item per student record, in input order, each with
  the student's ids and with exactly the result that \<open>predict_university_marks\<close>
  gives for that record alone on the service the batch started with; the function is
  total, so no record makes it raise, and a failure of one record is the failure
  dictionary of that item only.  The answer of the route \<open>/predict/batch\<close> carries
  these items in the same order, the number of students, and as
  \<open>successful_predictions\<close> the number of items whose \<open>success\<close> is true.
\<close>

theorem batch_predict_isolates_failures:
  "fst (batch_predict self disk students_data sid) =
     map (\<lambda>sd. \<lparr>item_result = fst (predict_university_marks self disk sd sid),
                item_student_id = student_id sd, item_subject_id = subject_id sd\<rparr>)
       students_data \<and>
   length (fst (batch_predict self disk students_data sid)) = length students_data \<and>
   (fst (batch_predict_route self disk db body students_query save) =
      BatchOk n_students ok saved items \<longrightarrow>
    (\<exists>data route_sid students.
       body = Some data \<and> data ''subject_id'' = Some route_sid \<and> route_sid \<noteq> 0 \<and>
       students_query route_sid (data ''academic_year'') = Inr students \<and>
       n_students = length students \<and>
       map batch_item.truncate items =
         fst (batch_predict self disk students (Some route_sid)) \<and>
       ok = length (filter (\<lambda>p. success (item_result p)) items)))"
proof (intro conjI impI)
  show m: "fst (batch_predict self disk students_data sid) =
     map (\<lambda>sd. \<lparr>item_result = fst (predict_university_marks self disk sd sid),
                item_student_id = student_id sd, item_subject_id = subject_id sd\<rparr>)
       students_data"
    by (rule batch_predict_map)
  show "length (fst (batch_predict self disk students_data sid)) = length students_data"
    unfolding m by simp
next
  assume "fst (batch_predict_route self disk db body students_query save) =
      BatchOk n_students ok saved items"
  then show "\<exists>data route_sid students.
       body = Some data \<and> data ''subject_id'' = Some route_sid \<and> route_sid \<noteq> 0 \<and>
       students_query route_sid (data ''academic_year'') = Inr students \<and>
       n_students = length students \<and>
       map batch_item.truncate items =
         fst (batch_predict self disk students (Some route_sid)) \<and>
       ok = length (filter (\<lambda>p. success (item_result p)) items)"
    by (rule route_ok)
qed

lemma picky_features:
  "prepare_prediction_features picky_service sample_student_data ! 0 = 80"
  "prepare_prediction_features picky_service bare_student_data ! 0 = 0"
  by (simp_all add: prepare_prediction_features_def picky_service_def
        default_feature_columns_def sample_student_data_def bare_student_data_def
        dict_get_def np_mean_def Let_def)

lemma picky_predictions:
  "success (fst (predict_university_marks picky_service Map.empty sample_student_data (Some 1)))"
  "fst (predict_university_marks picky_service Map.empty bare_student_data (Some 1)) =
     PredictionFailed ''Input has no marks''"
  by (simp_all add: predict_university_marks_def resolve_examples picky_model_def Let_def
        picky_features)

theorem batch_predict_isolates_failures_witness:
  "(\<exists>saved items.
      fst (batch_predict_route picky_service Map.empty () (Some [''subject_id'' \<mapsto> 1])
             two_students_query save_as_7) = BatchOk 2 1 saved items \<and>
      map item_student_id items = [Some 3, Some 2] \<and>
      map (\<lambda>p. success (item_result p)) items = [True, False] \<and>
      map (\<lambda>p. item_result p) (drop 1 items) = [PredictionFailed ''Input has no marks''])"
proof -
  let ?resp = "fst (batch_predict_route picky_service Map.empty () (Some [''subject_id'' \<mapsto> 1])
             two_students_query save_as_7)"
  let ?students = "[sample_student_data, bare_student_data]"
  let ?results = "fst (batch_predict picky_service Map.empty ?students (Some 1))"
  have r: "?resp = BatchOk (length ?students)
       (length (filter (\<lambda>p. success (item_result p)) ?results))
       (fst (snd (save_predictions save_as_7 () ?results)))
       (fst (save_predictions save_as_7 () ?results))"
    by (rule route_eq [where data = "[''subject_id'' \<mapsto> 1]" and sid = 1])
       (simp_all add: two_students_query_def)
  let ?items = "fst (save_predictions save_as_7 () ?results)"
  note t = batch_predict_isolates_failures
    [where self = picky_service and disk = Map.empty and db = "()"
       and body = "Some [''subject_id'' \<mapsto> 1]" and students_query = two_students_query
       and save = save_as_7 and students_data = ?students and sid = "Some 1"
       and n_students = "length ?students"
       and ok = "length (filter (\<lambda>p. success (item_result p)) ?results)"
       and saved = "fst (snd (save_predictions save_as_7 () ?results))"
       and items = ?items]
  from t have res: "?results =
     map (\<lambda>sd. \<lparr>item_result = fst (predict_university_marks picky_service Map.empty sd (Some 1)),
                item_student_id = student_id sd, item_subject_id = subject_id sd\<rparr>) ?students"
    by (rule conjunct1)
  from t r obtain data route_sid students where
    d: "Some [''subject_id'' \<mapsto> (1::int)] = Some data" "data ''subject_id'' = Some route_sid"
      "two_students_query route_sid (data ''academic_year'') = Inr students"
    and tr: "map batch_item.truncate ?items = fst (batch_predict picky_service Map.empty students (Some route_sid))"
    by blast
  from d have "route_sid = 1" "students = ?students"
    by (auto simp: two_students_query_def)
  with tr res have tr2: "map batch_item.truncate ?items =
     map (\<lambda>sd. \<lparr>item_result = fst (predict_university_marks picky_service Map.empty sd (Some 1)),
                item_student_id = student_id sd, item_subject_id = subject_id sd\<rparr>) ?students"
    by simp
  have ids: "map item_student_id ?items = [Some 3, Some 2]"
  proof -
    have "map item_student_id ?items = map item_student_id (map batch_item.truncate ?items)"
      by (simp add: batch_item.defs comp_def)
    also have "\<dots> = [Some 3, Some 2]"
      unfolding tr2 by (simp add: sample_student_data_def bare_student_data_def)
    finally show ?thesis .
  qed
  have rs: "map item_result ?items =
      [fst (predict_university_marks picky_service Map.empty sample_student_data (Some 1)),
       fst (predict_university_marks picky_service Map.empty bare_student_data (Some 1))]"
  proof -
    have "map item_result ?items = map item_result (map batch_item.truncate ?items)"
      by (simp add: batch_item.defs comp_def)
    also have "\<dots> = [fst (predict_university_marks picky_service Map.empty sample_student_data (Some 1)),
       fst (predict_university_marks picky_service Map.empty bare_student_data (Some 1))]"
      unfolding tr2 by simp
    finally show ?thesis .
  qed
  have su: "map (\<lambda>p. success (item_result p)) ?items = [True, False]"
  proof -
    have "map (\<lambda>p. success (item_result p)) ?items = map success (map item_result ?items)"
      by (simp add: comp_def)
    also have "\<dots> = [True, False]"
      unfolding rs by (simp add: picky_predictions)
    finally show ?thesis .
  qed
  have dr: "map (\<lambda>p. item_result p) (drop 1 ?items) = [PredictionFailed ''Input has no marks'']"
  proof -
    have "map (\<lambda>p. item_result p) (drop 1 ?items) = drop 1 (map item_result ?items)"
      by (simp add: drop_map)
    also have "\<dots> = [PredictionFailed ''Input has no marks'']"
      unfolding rs by (simp add: picky_predictions)
    finally show ?thesis .
  qed
  have ok: "length (filter (\<lambda>p. success (item_result p)) ?results) = 1"
    unfolding res by (simp add: picky_predictions)
  have "?resp = BatchOk 2 1 (fst (snd (save_predictions save_as_7 () ?results))) ?items"
    using r ok by simp
  with ids su dr show ?thesis by (intro exI conjI) assumption+
qed


section \<open>Prediction persistence: the visibility flag\<close>

lemma save_prediction_insert:
  assumes "filter (\<lambda>r. row_student_id r = student \<and> row_subject_id r = subject) (ml_predictions db) = []"
  shows "save_prediction db now student subject predicted confidence features version =
     (next_id db,
      db\<lparr>ml_predictions := ml_predictions db @
            [\<lparr>row_id = next_id db, row_student_id = student, row_subject_id = subject,
              row_predicted_marks = predicted, row_confidence_score = confidence,
              row_input_features = features, row_model_version = version,
              is_visible_to_student = False, created_at = now\<rparr>],
         next_id := next_id db + 1\<rparr>)"
  using assms unfolding save_prediction_def by simp

lemma save_prediction_update:
  assumes "filter (\<lambda>r. row_student_id r = student \<and> row_subject_id r = subject) (ml_predictions db) \<noteq> []"
  shows "snd (save_prediction db now student subject predicted confidence features version) =
      db\<lparr>ml_predictions :=
           map (\<lambda>r. if row_student_id r = student \<and> row_subject_id r = subject
                     then r\<lparr>row_predicted_marks := predicted,
                            row_confidence_score := confidence,
                            row_input_features := features,
                            row_model_version := version,
                            created_at := now\<rparr>
                     else r)
             (ml_predictions db)\<rparr>"
  using assms unfolding save_prediction_def by (simp split: list.splits)

text \<open>
  C10.  When the table has no row of the student and subject, \<open>save_prediction\<close>
  appends one row, with \<open>is_visible_to_student\<close> false and the new id it returns.
  When it has such rows, each of them gets the five columns \<open>predicted_marks\<close>,
  \<open>confidence_score\<close>, \<open>input_features\<close>, \<open>model_version\<close> and \<open>created_at\<close>
  set and nothing else, and every other row is unchanged.  In both cases every row the
  table had keeps its visibility flag.  \<open>toggle_prediction_visibility\<close>, when it
  does not refuse the faculty member, sets the flag of every row of the subject.
\<close>

theorem save_prediction_visibility:
  "(filter (\<lambda>r. row_student_id r = student \<and> row_subject_id r = subject) (ml_predictions db) = [] \<longrightarrow>
      ml_predictions (snd (save_prediction db now student subject predicted confidence features version)) =
        ml_predictions db @
        [\<lparr>row_id = fst (save_prediction db now student subject predicted confidence features version),
          row_student_id = student, row_subject_id = subject,
          row_predicted_marks = predicted, row_confidence_score = confidence,
          row_input_features = features, row_model_version = version,
          is_visible_to_student = False, created_at = now\<rparr>]) \<and>
   (filter (\<lambda>r. row_student_id r = student \<and> row_subject_id r = subject) (ml_predictions db) \<noteq> [] \<longrightarrow>
      ml_predictions (snd (save_prediction db now student subject predicted confidence features version)) =
        map (\<lambda>r. if row_student_id r = student \<and> row_subject_id r = subject
                  then r\<lparr>row_predicted_marks := predicted,
                         row_confidence_score := confidence,
                         row_input_features := features,
                         row_model_version := version,
                         created_at := now\<rparr>
                  else r)
          (ml_predictions db)) \<and>
   (\<forall>i < length (ml_predictions db).
      is_visible_to_student
        (ml_predictions (snd (save_prediction db now student subject predicted confidence features version)) ! i) =
      is_visible_to_student (ml_predictions db ! i)) \<and>
   (toggle_prediction_visibility db current_year subject is_visible faculty_id = Inr (n, db') \<longrightarrow>
      ml_predictions db' =
        map (\<lambda>r. if row_subject_id r = subject then r\<lparr>is_visible_to_student := is_visible\<rparr> else r)
          (ml_predictions db))"
proof (intro conjI impI allI)
  assume "filter (\<lambda>r. row_student_id r = student \<and> row_subject_id r = subject) (ml_predictions db) = []"
  then show "ml_predictions (snd (save_prediction db now student subject predicted confidence features version)) =
        ml_predictions db @
        [\<lparr>row_id = fst (save_prediction db now student subject predicted confidence features version),
          row_student_id = student, row_subject_id = subject,
          row_predicted_marks = predicted, row_confidence_score = confidence,
          row_input_features = features, row_model_version = version,
          is_visible_to_student = False, created_at = now\<rparr>]"
    by (simp add: save_prediction_insert)
next
  assume "filter (\<lambda>r. row_student_id r = student \<and> row_subject_id r = subject) (ml_predictions db) \<noteq> []"
  then show "ml_predictions (snd (save_prediction db now student subject predicted confidence features version)) =
        map (\<lambda>r. if row_student_id r = student \<and> row_subject_id r = subject
                  then r\<lparr>row_predicted_marks := predicted,
                         row_confidence_score := confidence,
                         row_input_features := features,
                         row_model_version := version,
                         created_at := now\<rparr>
                  else r)
          (ml_predictions db)"
    by (simp add: save_prediction_update)
next
  fix i assume i: "i < length (ml_predictions db)"
  show "is_visible_to_student
        (ml_predictions (snd (save_prediction db now student subject predicted confidence features version)) ! i) =
      is_visible_to_student (ml_predictions db ! i)"
  proof (cases "filter (\<lambda>r. row_student_id r = student \<and> row_subject_id r = subject) (ml_predictions db) = []")
    case True
    then show ?thesis using i by (simp add: save_prediction_insert nth_append)
  next
    case False
    then show ?thesis using i by (simp add: save_prediction_update)
  qed
next
  assume "toggle_prediction_visibility db current_year subject is_visible faculty_id = Inr (n, db')"
  then show "ml_predictions db' =
        map (\<lambda>r. if row_subject_id r = subject then r\<lparr>is_visible_to_student := is_visible\<rparr> else r)
          (ml_predictions db)"
    unfolding toggle_prediction_visibility_def by (auto split: if_splits)
qed


theorem save_prediction_visibility_witness:
  "filter (\<lambda>r. row_student_id r = 2 \<and> row_subject_id r = 1) (ml_predictions sample_database) = [] \<and>
   ml_predictions (snd (save_prediction sample_database 6 2 1 64.5 0.9 [] ''2.0.0'')) =
     [visible_row,
      \<lparr>row_id = 2, row_student_id = 2, row_subject_id = 1, row_predicted_marks = 64.5,
       row_confidence_score = 0.9, row_input_features = [], row_model_version = ''2.0.0'',
       is_visible_to_student = False, created_at = 6\<rparr>] \<and>
   filter (\<lambda>r. row_student_id r = 1 \<and> row_subject_id r = 1) (ml_predictions sample_database) \<noteq> [] \<and>
   ml_predictions (snd (save_prediction sample_database 6 1 1 64.5 0.9 [] ''2.0.0'')) =
     [\<lparr>row_id = 1, row_student_id = 1, row_subject_id = 1, row_predicted_marks = 64.5,
       row_confidence_score = 0.9, row_input_features = [], row_model_version = ''2.0.0'',
       is_visible_to_student = True, created_at = 6\<rparr>] \<and>
   0 < length (ml_predictions sample_database) \<and>
   is_visible_to_student
     (ml_predictions (snd (save_prediction sample_database 6 1 1 64.5 0.9 [] ''2.0.0'')) ! 0) \<and>
   toggle_prediction_visibility sample_database 2025 1 False (Some 9) =
     Inr (1, sample_database\<lparr>ml_predictions := [visible_row\<lparr>is_visible_to_student := False\<rparr>]\<rparr>) \<and>
   ml_predictions (sample_database\<lparr>ml_predictions := [visible_row\<lparr>is_visible_to_student := False\<rparr>]\<rparr>) =
     [visible_row\<lparr>is_visible_to_student := False\<rparr>]"
proof -
  have h1: "filter (\<lambda>r. row_student_id r = 2 \<and> row_subject_id r = 1) (ml_predictions sample_database) = []"
    by (simp add: sample_database_def visible_row_def)
  have fst1: "fst (save_prediction sample_database 6 2 1 64.5 0.9 [] ''2.0.0'') = 2"
    by (simp add: save_prediction_def sample_database_def visible_row_def)
  from save_prediction_visibility [where db = sample_database and student = 2 and subject = 1
        and now = 6 and predicted = "64.5" and confidence = "0.9" and features = "[]"
        and version = "''2.0.0''", THEN conjunct1] h1
  have "ml_predictions (snd (save_prediction sample_database 6 2 1 64.5 0.9 [] ''2.0.0'')) =
     ml_predictions sample_database @
     [\<lparr>row_id = fst (save_prediction sample_database 6 2 1 64.5 0.9 [] ''2.0.0''),
       row_student_id = 2, row_subject_id = 1, row_predicted_marks = 64.5,
       row_confidence_score = 0.9, row_input_features = [], row_model_version = ''2.0.0'',
       is_visible_to_student = False, created_at = 6\<rparr>]"
    by (rule mp)
  then have c1: "ml_predictions (snd (save_prediction sample_database 6 2 1 64.5 0.9 [] ''2.0.0'')) =
     [visible_row,
      \<lparr>row_id = 2, row_student_id = 2, row_subject_id = 1, row_predicted_marks = 64.5,
       row_confidence_score = 0.9, row_input_features = [], row_model_version = ''2.0.0'',
       is_visible_to_student = False, created_at = 6\<rparr>]"
    unfolding fst1 by (simp add: sample_database_def)
  have h2: "filter (\<lambda>r. row_student_id r = 1 \<and> row_subject_id r = 1) (ml_predictions sample_database) \<noteq> []"
    by (simp add: sample_database_def visible_row_def)
  have c2: "ml_predictions (snd (save_prediction sample_database 6 1 1 64.5 0.9 [] ''2.0.0'')) =
     [\<lparr>row_id = 1, row_student_id = 1, row_subject_id = 1, row_predicted_marks = 64.5,
       row_confidence_score = 0.9, row_input_features = [], row_model_version = ''2.0.0'',
       is_visible_to_student = True, created_at = 6\<rparr>]"
    using save_prediction_visibility [where db = sample_database and student = 1 and subject = 1
        and now = 6 and predicted = "64.5" and confidence = "0.9" and features = "[]"
        and version = "''2.0.0''", THEN conjunct2, THEN conjunct1] h2
    by (simp add: sample_database_def visible_row_def)
  have h3: "0 < length (ml_predictions sample_database)"
    by (simp add: sample_database_def)
  have c3: "is_visible_to_student
     (ml_predictions (snd (save_prediction sample_database 6 1 1 64.5 0.9 [] ''2.0.0'')) ! 0)"
    using save_prediction_visibility [where db = sample_database and student = 1 and subject = 1
        and now = 6 and predicted = "64.5" and confidence = "0.9" and features = "[]"
        and version = "''2.0.0''", THEN conjunct2, THEN conjunct2, THEN conjunct1] h3
    by (simp add: sample_database_def visible_row_def)
  have h4: "toggle_prediction_visibility sample_database 2025 1 False (Some 9) =
     Inr (1, sample_database\<lparr>ml_predictions := [visible_row\<lparr>is_visible_to_student := False\<rparr>]\<rparr>)"
    by (simp add: toggle_prediction_visibility_def sample_database_def visible_row_def)
  have c4: "ml_predictions (sample_database\<lparr>ml_predictions := [visible_row\<lparr>is_visible_to_student := False\<rparr>]\<rparr>) =
     [visible_row\<lparr>is_visible_to_student := False\<rparr>]"
    using save_prediction_visibility [where db = sample_database and subject = 1
        and current_year = 2025 and is_visible = False and faculty_id = "Some 9" and n = 1
        and db' = "sample_database\<lparr>ml_predictions := [visible_row\<lparr>is_visible_to_student := False\<rparr>]\<rparr>",
        THEN conjunct2, THEN conjunct2, THEN conjunct2] h4
    by simp
  show ?thesis
    by (intro conjI; (rule h1 c1 h2 c2 h3 c3 h4 c4))
qed

end
